theory Spec2Isabelle
  imports Main "HOL-Library.Word"
begin

unbundle bit_operations_syntax

section \<open>Data model\<close>

text \<open>
  A lane is a \<^verbatim>\<open>uint64_t\<close>.  The state is the C array \<^verbatim>\<open>uint64_t state[25]\<close>, read with
  \<open>s ! i\<close> and written with \<open>s[i := v]\<close>; lane \<open>(x, y)\<close> (column \<open>x\<close>, row \<open>y\<close>) lives at
  index \<open>y * 5 + x\<close>.  The vector registers \<^verbatim>\<open>__m128i\<close>, \<^verbatim>\<open>__m256i\<close> and \<^verbatim>\<open>__m512i\<close> are lists
  of 2, 4 and 8 lanes, element 0 (the least significant 64 bits) first.
\<close>

type_synonym lane = "64 word"
type_synonym state = "lane list"
type_synonym m128i = "lane list"
type_synonym m256i = "lane list"
type_synonym m512i = "lane list"

subsection \<open>Constant tables (identical in KeccakP-1600-avx2.c and KeccakP-1600-avx512.c)\<close>

definition KeccakF1600RoundConstants :: "lane list" where
  "KeccakF1600RoundConstants =
    [0x0000000000000001, 0x0000000000008082, 0x800000000000808a, 0x8000000080008000,
     0x000000000000808b, 0x0000000080000001, 0x8000000080008081, 0x8000000000008009,
     0x000000000000008a, 0x0000000000000088, 0x0000000080008009, 0x000000008000000a,
     0x000000008000808b, 0x800000000000008b, 0x8000000000008089, 0x8000000000008003,
     0x8000000000008002, 0x8000000000000080, 0x000000000000800a, 0x800000008000000a,
     0x8000000080008081, 0x8000000000008080, 0x0000000080000001, 0x8000000080008008]"

definition rhotates :: "int list" where
  "rhotates =
    [0, 1, 62, 28, 27, 36, 44, 6, 55, 20, 3, 10, 43, 25, 39, 41, 45, 15, 21, 8, 18, 2, 61, 56, 14]"

definition pi_lane_map :: "nat list" where
  "pi_lane_map =
    [0, 10, 20, 5, 15, 16, 1, 11, 21, 6, 7, 17, 2, 12, 22, 23, 8, 18, 3, 13, 14, 24, 9, 19, 4]"

section \<open>Scalar rotation\<close>

text \<open>
  \<^verbatim>\<open>rotl64(uint64_t x, int n)\<close>, the same text in both vector files: a \<^verbatim>\<open>switch\<close> over the
  rotation amounts of the rho table with one shift pair per case, and a \<^verbatim>\<open>default\<close> that
  masks \<open>n\<close> with 63.  \<^verbatim>\<open>x << k\<close> is \<open>push_bit k x\<close> and \<^verbatim>\<open>x >> k\<close> is \<open>drop_bit k x\<close> on 64-bit
  words.  In the default branch the right shift count \<^verbatim>\<open>64 - normalized_n\<close> reaches 64 exactly
  when \<open>n\<close> is a nonzero multiple of 64; C leaves that shift undefined, and
  \<open>rotl64_shift_defined\<close> records where every shift count of the call stays below 64.
\<close>

definition rotl64_generic :: "lane \<Rightarrow> int \<Rightarrow> lane" where
  "rotl64_generic x n =
    (let normalized_n = n AND 63
     in push_bit (nat normalized_n) x OR drop_bit (nat (64 - normalized_n)) x)"

definition rotl64 :: "lane \<Rightarrow> int \<Rightarrow> lane" where
  "rotl64 x n =
    (if n = 0 then x
     else if n = 1 then push_bit 1 x OR drop_bit 63 x
     else if n = 2 then push_bit 2 x OR drop_bit 62 x
     else if n = 3 then push_bit 3 x OR drop_bit 61 x
     else if n = 6 then push_bit 6 x OR drop_bit 58 x
     else if n = 8 then push_bit 8 x OR drop_bit 56 x
     else if n = 10 then push_bit 10 x OR drop_bit 54 x
     else if n = 14 then push_bit 14 x OR drop_bit 50 x
     else if n = 15 then push_bit 15 x OR drop_bit 49 x
     else if n = 18 then push_bit 18 x OR drop_bit 46 x
     else if n = 20 then push_bit 20 x OR drop_bit 44 x
     else if n = 21 then push_bit 21 x OR drop_bit 43 x
     else if n = 25 then push_bit 25 x OR drop_bit 39 x
     else if n = 27 then push_bit 27 x OR drop_bit 37 x
     else if n = 28 then push_bit 28 x OR drop_bit 36 x
     else if n = 36 then push_bit 36 x OR drop_bit 28 x
     else if n = 39 then push_bit 39 x OR drop_bit 25 x
     else if n = 41 then push_bit 41 x OR drop_bit 23 x
     else if n = 43 then push_bit 43 x OR drop_bit 21 x
     else if n = 44 then push_bit 44 x OR drop_bit 20 x
     else if n = 45 then push_bit 45 x OR drop_bit 19 x
     else if n = 55 then push_bit 55 x OR drop_bit 9 x
     else if n = 56 then push_bit 56 x OR drop_bit 8 x
     else if n = 61 then push_bit 61 x OR drop_bit 3 x
     else if n = 62 then push_bit 62 x OR drop_bit 2 x
     else if n = 63 then push_bit 63 x OR drop_bit 1 x
     else rotl64_generic x n)"

definition rotl64_switch_cases :: "int list" where
  "rotl64_switch_cases =
    [0, 1, 2, 3, 6, 8, 10, 14, 15, 18, 20, 21, 25, 27, 28, 36, 39, 41, 43, 44, 45, 55, 56,
     61, 62, 63]"

definition rotl64_shift_defined :: "int \<Rightarrow> bool" where
  "rotl64_shift_defined n \<longleftrightarrow> n \<in> set rotl64_switch_cases \<or> n AND 63 \<noteq> 0"

section \<open>Vector intrinsics\<close>

text \<open>
  The intrinsics of \<^verbatim>\<open>immintrin.h\<close> the two engines call, with the element order of the
  Intel reference: the \<^verbatim>\<open>set\<close> intrinsics take the most significant element first, so their
  last argument is element 0; loads and stores move consecutive lanes of an array, element
  0 at the lowest address.
\<close>

definition mm256_set_epi64x :: "lane \<Rightarrow> lane \<Rightarrow> lane \<Rightarrow> lane \<Rightarrow> m256i" where
  "mm256_set_epi64x e3 e2 e1 e0 = [e0, e1, e2, e3]"

definition mm256_set1_epi64x :: "lane \<Rightarrow> m256i" where
  "mm256_set1_epi64x a = [a, a, a, a]"

definition mm256_xor_si256 :: "m256i \<Rightarrow> m256i \<Rightarrow> m256i" where
  "mm256_xor_si256 a b = map2 (XOR) a b"

definition mm256_permute4x64_epi64 :: "m256i \<Rightarrow> nat \<Rightarrow> m256i" where
  "mm256_permute4x64_epi64 a imm8 =
    [a ! (imm8 mod 4), a ! (imm8 div 4 mod 4), a ! (imm8 div 16 mod 4), a ! (imm8 div 64 mod 4)]"

definition mm256_extract_epi64 :: "m256i \<Rightarrow> nat \<Rightarrow> lane" where
  "mm256_extract_epi64 a idx = a ! idx"

definition mm256_loadu_si256 :: "lane list \<Rightarrow> nat \<Rightarrow> m256i" where
  "mm256_loadu_si256 mem off = take 4 (drop off mem)"

definition mm256_storeu_si256 :: "lane list \<Rightarrow> nat \<Rightarrow> m256i \<Rightarrow> lane list" where
  "mm256_storeu_si256 mem off a = take off mem @ a @ drop (off + 4) mem"

text \<open>\<^verbatim>\<open>memcpy(dst + off, src + off, n * sizeof(uint64_t))\<close> on lane arrays.\<close>

definition memcpy_lanes :: "lane list \<Rightarrow> lane list \<Rightarrow> nat \<Rightarrow> nat \<Rightarrow> lane list" where
  "memcpy_lanes dst src off n = take off dst @ take n (drop off src) @ drop (off + n) dst"

section \<open>The AVX2 engine (KeccakP-1600-avx2.c)\<close>

definition mm256_horizontal_xor_epi64 :: "m256i \<Rightarrow> lane" where
  "mm256_horizontal_xor_epi64 v0 =
    (let v1 = mm256_xor_si256 v0 (mm256_permute4x64_epi64 v0 0x4E);
         v2 = mm256_xor_si256 v1 (mm256_permute4x64_epi64 v1 0xB1)
     in mm256_extract_epi64 v2 0)"

text \<open>\<^verbatim>\<open>D_CALC(x, x1, x4)\<close> five times: \<^verbatim>\<open>d[x] = c[x4] ^ rotl64(c[x1], 1)\<close>.\<close>

definition D_CALC_all :: "lane list \<Rightarrow> lane list" where
  "D_CALC_all c =
    [c ! 4 XOR rotl64 (c ! 1) 1,
     c ! 0 XOR rotl64 (c ! 2) 1,
     c ! 1 XOR rotl64 (c ! 3) 1,
     c ! 2 XOR rotl64 (c ! 4) 1,
     c ! 3 XOR rotl64 (c ! 0) 1]"

text \<open>\<^verbatim>\<open>theta_step_avx2(state, c, d)\<close> fills the out-arrays \<open>c\<close> and \<open>d\<close>; the model returns them.\<close>

definition theta_step_avx2 :: "state \<Rightarrow> lane list \<times> lane list" where
  "theta_step_avx2 state =
    (let col0 = mm256_set_epi64x (state ! 20) (state ! 15) (state ! 10) (state ! 5);
         col0 = mm256_xor_si256 col0 (mm256_set1_epi64x (state ! 0));
         col1 = mm256_set_epi64x (state ! 21) (state ! 16) (state ! 11) (state ! 6);
         col1 = mm256_xor_si256 col1 (mm256_set1_epi64x (state ! 1));
         col2 = mm256_set_epi64x (state ! 22) (state ! 17) (state ! 12) (state ! 7);
         col2 = mm256_xor_si256 col2 (mm256_set1_epi64x (state ! 2));
         col3 = mm256_set_epi64x (state ! 23) (state ! 18) (state ! 13) (state ! 8);
         col3 = mm256_xor_si256 col3 (mm256_set1_epi64x (state ! 3));
         col4 = mm256_set_epi64x (state ! 24) (state ! 19) (state ! 14) (state ! 9);
         col4 = mm256_xor_si256 col4 (mm256_set1_epi64x (state ! 4));
         c = [mm256_horizontal_xor_epi64 col0,
              mm256_horizontal_xor_epi64 col1,
              mm256_horizontal_xor_epi64 col2,
              mm256_horizontal_xor_epi64 col3,
              mm256_horizontal_xor_epi64 col4]
     in (c, D_CALC_all c))"

text \<open>
  \<^verbatim>\<open>THETA_TAIL(i, col)\<close> / \<^verbatim>\<open>APPLY_D(i, col)\<close>: \<^verbatim>\<open>state[i] ^= d[col]\<close> for the nine lanes 16..24,
  the same list of pairs in both engines.
\<close>

definition THETA_TAIL :: "lane list \<Rightarrow> state \<Rightarrow> nat \<times> nat \<Rightarrow> state" where
  "THETA_TAIL d state p = (case p of (i, col) \<Rightarrow> state[i := state ! i XOR d ! col])"

definition theta_tail_pairs :: "(nat \<times> nat) list" where
  "theta_tail_pairs =
    [(16, 1), (17, 2), (18, 3), (19, 4), (20, 0), (21, 1), (22, 2), (23, 3), (24, 4)]"

text \<open>
  The theta section of \<^verbatim>\<open>KeccakP1600_Round_avx2\<close>, from the call of \<^verbatim>\<open>theta_step_avx2\<close> to
  the \<^verbatim>\<open>memcpy\<close> into \<^verbatim>\<open>temp\<close>: lanes 0..15 are XORed with d in four registers and stored
  to \<^verbatim>\<open>temp\<close> only, lanes 16..24 are updated in \<^verbatim>\<open>state\<close> and copied.  \<^verbatim>\<open>temp\<close> is an
  uninitialised stack array whose 25 lanes are all written before they are read; it starts
  here as zeros.  The result is the pair \<open>(state, temp)\<close>.
\<close>

definition theta_section_avx2 :: "state \<Rightarrow> state \<times> lane list" where
  "theta_section_avx2 state =
    (let d = snd (theta_step_avx2 state);
         lanes0 = mm256_loadu_si256 state 0;
         lanes1 = mm256_loadu_si256 state 4;
         lanes2 = mm256_loadu_si256 state 8;
         lanes3 = mm256_loadu_si256 state 12;
         lanes0 = mm256_xor_si256 lanes0 (mm256_set_epi64x (d ! 3) (d ! 2) (d ! 1) (d ! 0));
         lanes1 = mm256_xor_si256 lanes1 (mm256_set_epi64x (d ! 2) (d ! 1) (d ! 0) (d ! 4));
         lanes2 = mm256_xor_si256 lanes2 (mm256_set_epi64x (d ! 1) (d ! 0) (d ! 4) (d ! 3));
         lanes3 = mm256_xor_si256 lanes3 (mm256_set_epi64x (d ! 0) (d ! 4) (d ! 3) (d ! 2));
         state = foldl (THETA_TAIL d) state theta_tail_pairs;
         temp = replicate 25 0;
         temp = mm256_storeu_si256 temp 0 lanes0;
         temp = mm256_storeu_si256 temp 4 lanes1;
         temp = mm256_storeu_si256 temp 8 lanes2;
         temp = mm256_storeu_si256 temp 12 lanes3;
         temp = memcpy_lanes temp state 16 9
     in (state, temp))"

text \<open>
  The fused rho+pi section.  \<^verbatim>\<open>RHO_PI_STEP(idx, src, rot)\<close> is
  \<^verbatim>\<open>state[idx] = rotl64(temp[src], rot)\<close>; the triples are the 24 macro calls in source order,
  after \<^verbatim>\<open>state[0] = temp[0]\<close>.
\<close>

definition RHO_PI_STEP :: "lane list \<Rightarrow> state \<Rightarrow> nat \<times> nat \<times> int \<Rightarrow> state" where
  "RHO_PI_STEP temp state p = (case p of (idx, src, rot) \<Rightarrow> state[idx := rotl64 (temp ! src) rot])"

definition rho_pi_steps_avx2 :: "(nat \<times> nat \<times> int) list" where
  "rho_pi_steps_avx2 =
    [(5, 1, 1), (10, 2, 62), (15, 3, 28), (20, 4, 27),
     (1, 5, 36), (6, 6, 44), (11, 7, 6), (16, 8, 55), (21, 9, 20),
     (2, 10, 3), (7, 11, 10), (12, 12, 43), (17, 13, 25), (22, 14, 39),
     (3, 15, 41), (8, 16, 45), (13, 17, 15), (18, 18, 21), (23, 19, 8),
     (4, 20, 18), (9, 21, 2), (14, 22, 61), (19, 23, 56), (24, 24, 14)]"

definition rho_pi_section_avx2 :: "state \<Rightarrow> lane list \<Rightarrow> state" where
  "rho_pi_section_avx2 state temp =
    (let state = state[0 := temp ! 0]
     in foldl (RHO_PI_STEP temp) state rho_pi_steps_avx2)"

definition chi_process_row :: "state \<Rightarrow> nat \<Rightarrow> state" where
  "chi_process_row state row_base =
    (let a0 = state ! (row_base + 0);
         a1 = state ! (row_base + 1);
         a2 = state ! (row_base + 2);
         a3 = state ! (row_base + 3);
         a4 = state ! (row_base + 4);
         state = state[row_base + 0 := a0 XOR (NOT a1 AND a2)];
         state = state[row_base + 1 := a1 XOR (NOT a2 AND a3)];
         state = state[row_base + 2 := a2 XOR (NOT a3 AND a4)];
         state = state[row_base + 3 := a3 XOR (NOT a4 AND a0)];
         state = state[row_base + 4 := a4 XOR (NOT a0 AND a1)]
     in state)"

definition chi_section_avx2 :: "state \<Rightarrow> state" where
  "chi_section_avx2 state = foldl chi_process_row state [0, 5, 10, 15, 20]"

definition iota_section :: "state \<Rightarrow> lane \<Rightarrow> state" where
  "iota_section state rc = state[0 := state ! 0 XOR rc]"

definition KeccakP1600_Round_avx2 :: "state \<Rightarrow> lane \<Rightarrow> state" where
  "KeccakP1600_Round_avx2 state rc =
    (let r = theta_section_avx2 state;
         state = fst r;
         temp = snd r;
         state = rho_pi_section_avx2 state temp;
         state = chi_section_avx2 state
     in iota_section state rc)"

text \<open>
  \<^verbatim>\<open>KECCAK_ROUND(i)\<close> is \<^verbatim>\<open>KeccakP1600_Round_avx2(state, KeccakF1600RoundConstants[i])\<close> in
  the 24-round function and \<^verbatim>\<open>... KeccakF1600RoundConstants[i+12]\<close> in the 12-round one; the
  index lists are the macro calls in source order.
\<close>

definition KECCAK_ROUND_avx2 :: "state \<Rightarrow> nat \<Rightarrow> state" where
  "KECCAK_ROUND_avx2 state i = KeccakP1600_Round_avx2 state (KeccakF1600RoundConstants ! i)"

definition KECCAK_ROUND_12_avx2 :: "state \<Rightarrow> nat \<Rightarrow> state" where
  "KECCAK_ROUND_12_avx2 state i =
    KeccakP1600_Round_avx2 state (KeccakF1600RoundConstants ! (i + 12))"

definition KeccakP1600_Permute_24rounds_avx2 :: "state \<Rightarrow> state" where
  "KeccakP1600_Permute_24rounds_avx2 state =
    foldl KECCAK_ROUND_avx2 state
      [0, 1, 2, 3, 4, 5, 6, 7, 8, 9, 10, 11, 12, 13, 14, 15, 16, 17, 18, 19, 20, 21, 22, 23]"

definition KeccakP1600_Permute_12rounds_avx2 :: "state \<Rightarrow> state" where
  "KeccakP1600_Permute_12rounds_avx2 state =
    foldl KECCAK_ROUND_12_avx2 state
      [0, 1, 2, 3, 4, 5, 6, 7, 8, 9, 10, 11]"

section \<open>The AVX-512 engine (KeccakP-1600-avx512.c)\<close>

definition mm512_set_epi64 ::
  "lane \<Rightarrow> lane \<Rightarrow> lane \<Rightarrow> lane \<Rightarrow> lane \<Rightarrow> lane \<Rightarrow> lane \<Rightarrow> lane \<Rightarrow> m512i" where
  "mm512_set_epi64 e7 e6 e5 e4 e3 e2 e1 e0 = [e0, e1, e2, e3, e4, e5, e6, e7]"

definition mm512_set1_epi64 :: "lane \<Rightarrow> m512i" where
  "mm512_set1_epi64 a = [a, a, a, a, a, a, a, a]"

definition mm512_xor_si512 :: "m512i \<Rightarrow> m512i \<Rightarrow> m512i" where
  "mm512_xor_si512 a b = map2 (XOR) a b"

definition mm512_and_si512 :: "m512i \<Rightarrow> m512i \<Rightarrow> m512i" where
  "mm512_and_si512 a b = map2 (AND) a b"

definition mm512_extracti64x4_epi64 :: "m512i \<Rightarrow> nat \<Rightarrow> m256i" where
  "mm512_extracti64x4_epi64 a imm8 = take 4 (drop (4 * imm8) a)"

definition mm256_extracti128_si256 :: "m256i \<Rightarrow> nat \<Rightarrow> m128i" where
  "mm256_extracti128_si256 a imm8 = take 2 (drop (2 * imm8) a)"

definition mm_xor_si128 :: "m128i \<Rightarrow> m128i \<Rightarrow> m128i" where
  "mm_xor_si128 a b = map2 (XOR) a b"

definition mm_extract_epi64 :: "m128i \<Rightarrow> nat \<Rightarrow> lane" where
  "mm_extract_epi64 a imm8 = a ! imm8"

text \<open>\<^verbatim>\<open>_mm512_permutexvar_epi64(idx, a)\<close>: element \<open>i\<close> of the result is \<open>a[idx[i] & 7]\<close>.\<close>

definition mm512_permutexvar_epi64 :: "m512i \<Rightarrow> m512i \<Rightarrow> m512i" where
  "mm512_permutexvar_epi64 idx a = map (\<lambda>i. a ! unat (i AND 7)) idx"

text \<open>
  \<^verbatim>\<open>_mm512_mask_xor_epi64(src, k, a, b)\<close>: element \<open>i\<close> is \<open>a[i] ^ b[i]\<close> where bit \<open>i\<close> of the
  mask is set and \<open>src[i]\<close> elsewhere.  \<^verbatim>\<open>_mm512_mask_storeu_epi64(mem, k, a)\<close> writes
  element \<open>i\<close> to \<open>mem[i]\<close> where bit \<open>i\<close> of the mask is set and leaves the rest of the memory
  untouched.
\<close>

definition mm512_mask_xor_epi64 :: "m512i \<Rightarrow> 8 word \<Rightarrow> m512i \<Rightarrow> m512i \<Rightarrow> m512i" where
  "mm512_mask_xor_epi64 src k a b =
    map (\<lambda>i. if bit k i then a ! i XOR b ! i else src ! i) [0, 1, 2, 3, 4, 5, 6, 7]"

definition mask_store_lane :: "nat \<Rightarrow> 8 word \<Rightarrow> m512i \<Rightarrow> lane list \<Rightarrow> nat \<Rightarrow> lane list" where
  "mask_store_lane off k a mem i = (if bit k i then mem[off + i := a ! i] else mem)"

definition mm512_mask_storeu_epi64 :: "lane list \<Rightarrow> nat \<Rightarrow> 8 word \<Rightarrow> m512i \<Rightarrow> lane list" where
  "mm512_mask_storeu_epi64 mem off k a =
    foldl (mask_store_lane off k a) mem [0, 1, 2, 3, 4, 5, 6, 7]"

definition mm512_loadu_si512 :: "lane list \<Rightarrow> nat \<Rightarrow> m512i" where
  "mm512_loadu_si512 mem off = take 8 (drop off mem)"

definition mm512_storeu_si512 :: "lane list \<Rightarrow> nat \<Rightarrow> m512i \<Rightarrow> lane list" where
  "mm512_storeu_si512 mem off a = take off mem @ a @ drop (off + 8) mem"

definition mm512_horizontal_xor_epi64 :: "m512i \<Rightarrow> lane" where
  "mm512_horizontal_xor_epi64 v =
    (let low256 = mm512_extracti64x4_epi64 v 0;
         high256 = mm512_extracti64x4_epi64 v 1;
         reduced = mm256_xor_si256 low256 high256;
         low128 = mm256_extracti128_si256 reduced 0;
         high128 = mm256_extracti128_si256 reduced 1;
         result = mm_xor_si128 low128 high128;
         val = mm_extract_epi64 result 0 XOR mm_extract_epi64 result 1
     in val)"

definition theta_step_avx512 :: "state \<Rightarrow> lane list \<times> lane list" where
  "theta_step_avx512 state =
    (let col0 = mm512_set_epi64 0 0 0 (state ! 20) (state ! 15) (state ! 10) (state ! 5) (state ! 0);
         col1 = mm512_set_epi64 0 0 0 (state ! 21) (state ! 16) (state ! 11) (state ! 6) (state ! 1);
         col2 = mm512_set_epi64 0 0 0 (state ! 22) (state ! 17) (state ! 12) (state ! 7) (state ! 2);
         col3 = mm512_set_epi64 0 0 0 (state ! 23) (state ! 18) (state ! 13) (state ! 8) (state ! 3);
         col4 = mm512_set_epi64 0 0 0 (state ! 24) (state ! 19) (state ! 14) (state ! 9) (state ! 4);
         c = [mm512_horizontal_xor_epi64 col0,
              mm512_horizontal_xor_epi64 col1,
              mm512_horizontal_xor_epi64 col2,
              mm512_horizontal_xor_epi64 col3,
              mm512_horizontal_xor_epi64 col4]
     in (c, D_CALC_all c))"

definition chi_process_row_avx512 :: "state \<Rightarrow> nat \<Rightarrow> state" where
  "chi_process_row_avx512 state row_base =
    (let row = mm512_set_epi64 0 0 0 (state ! (row_base + 4)) (state ! (row_base + 3))
                 (state ! (row_base + 2)) (state ! (row_base + 1)) (state ! row_base);
         row_shifted1 = mm512_permutexvar_epi64 (mm512_set_epi64 0 0 0 0 3 2 1 5) row;
         row_shifted2 = mm512_permutexvar_epi64 (mm512_set_epi64 0 0 0 0 4 3 2 1) row;
         full_mask = 0x1F;
         not_row = mm512_xor_si512 row_shifted1 (mm512_set1_epi64 (- 1));
         chi_result = mm512_and_si512 not_row row_shifted2;
         row = mm512_mask_xor_epi64 row full_mask row chi_result
     in mm512_mask_storeu_epi64 state row_base full_mask row)"

text \<open>
  The theta section of \<^verbatim>\<open>KeccakP1600_Round_avx512\<close>: lanes 0..7 and 8..15 are XORed with two
  vectors of d values and stored to \<^verbatim>\<open>temp\<close>; lanes 16..24 are updated in \<^verbatim>\<open>state\<close> by
  \<^verbatim>\<open>APPLY_D\<close> and copied.
\<close>

definition theta_section_avx512 :: "state \<Rightarrow> state \<times> lane list" where
  "theta_section_avx512 state =
    (let d = snd (theta_step_avx512 state);
         s0 = mm512_loadu_si512 state 0;
         s1 = mm512_loadu_si512 state 8;
         d_broadcast = mm512_set_epi64 (d ! 3) (d ! 2) (d ! 1) (d ! 0) (d ! 4) (d ! 3) (d ! 2) (d ! 1);
         s0 = mm512_xor_si512 s0 d_broadcast;
         d_broadcast = mm512_set_epi64 (d ! 2) (d ! 1) (d ! 0) (d ! 4) (d ! 3) (d ! 2) (d ! 1) (d ! 0);
         s1 = mm512_xor_si512 s1 d_broadcast;
         state = foldl (THETA_TAIL d) state theta_tail_pairs;
         temp = replicate 25 0;
         temp = mm512_storeu_si512 temp 0 s0;
         temp = mm512_storeu_si512 temp 8 s1;
         temp = memcpy_lanes temp state 16 9
     in (state, temp))"

text \<open>\<^verbatim>\<open>RHO_PI(dest, src, rot)\<close>, with the destinations written as in the source.\<close>

definition rho_pi_steps_avx512 :: "(nat \<times> nat \<times> int) list" where
  "rho_pi_steps_avx512 =
    [(1*5+0, 1, 1), (2*5+0, 2, 62), (3*5+0, 3, 28), (4*5+0, 4, 27),
     (0*5+1, 5, 36), (1*5+1, 6, 44), (2*5+1, 7, 6), (3*5+1, 8, 55), (4*5+1, 9, 20),
     (0*5+2, 10, 3), (1*5+2, 11, 10), (2*5+2, 12, 43), (3*5+2, 13, 25), (4*5+2, 14, 39),
     (0*5+3, 15, 41), (1*5+3, 16, 45), (2*5+3, 17, 15), (3*5+3, 18, 21), (4*5+3, 19, 8),
     (0*5+4, 20, 18), (1*5+4, 21, 2), (2*5+4, 22, 61), (3*5+4, 23, 56), (4*5+4, 24, 14)]"

definition rho_pi_section_avx512 :: "state \<Rightarrow> lane list \<Rightarrow> state" where
  "rho_pi_section_avx512 state temp =
    (let state = state[0 := temp ! 0]
     in foldl (RHO_PI_STEP temp) state rho_pi_steps_avx512)"

definition chi_section_avx512 :: "state \<Rightarrow> state" where
  "chi_section_avx512 state = foldl chi_process_row_avx512 state [0, 5, 10, 15, 20]"

definition KeccakP1600_Round_avx512 :: "state \<Rightarrow> lane \<Rightarrow> state" where
  "KeccakP1600_Round_avx512 state rc =
    (let r = theta_section_avx512 state;
         state = fst r;
         temp = snd r;
         state = rho_pi_section_avx512 state temp;
         state = chi_section_avx512 state
     in iota_section state rc)"

definition KECCAK_ROUND_avx512 :: "state \<Rightarrow> nat \<Rightarrow> state" where
  "KECCAK_ROUND_avx512 state i = KeccakP1600_Round_avx512 state (KeccakF1600RoundConstants ! i)"

definition KeccakP1600_Permute_24rounds_avx512 :: "state \<Rightarrow> state" where
  "KeccakP1600_Permute_24rounds_avx512 state =
    foldl KECCAK_ROUND_avx512 state
      [0, 1, 2, 3, 4, 5, 6, 7, 8, 9, 10, 11, 12, 13, 14, 15, 16, 17, 18, 19, 20, 21, 22, 23]"

definition KeccakP1600_Permute_12rounds_avx512 :: "state \<Rightarrow> state" where
  "KeccakP1600_Permute_12rounds_avx512 state =
    foldl KECCAK_ROUND_avx512 state [12, 13, 14, 15, 16, 17, 18, 19, 20, 21, 22, 23]"

section \<open>The backend dispatcher (KeccakP-1600-optimized.c)\<close>

text \<open>
  The function pointer \<^verbatim>\<open>permute_fn\<close> points to one of three engines or is \<^verbatim>\<open>NULL\<close>
  (\<open>None\<close>).  \<^verbatim>\<open>supportsAVX2\<close> and \<^verbatim>\<open>supportsAVX512\<close> exist only in a build whose compiler
  flags define the matching macros: the platform gives \<open>None\<close> for a probe that is compiled
  out and \<open>Some b\<close> for one that reports \<open>b\<close>.  The dispatcher state also counts the probe
  calls made so far, the one effect of a probe that the state can record.  The reference
  engine lives in KeccakP-1600-reference.c and is a parameter of the entry point.
\<close>

datatype engine = Reference | AVX2 | AVX512

record platform =
  supportsAVX2 :: "bool option"
  supportsAVX512 :: "bool option"

record dispatcher =
  permute_fn :: "engine option"
  probes :: nat

definition dispatcher_initial :: dispatcher where
  "dispatcher_initial = \<lparr>permute_fn = None, probes = 0\<rparr>"

definition probe_and_bind :: "bool option \<Rightarrow> engine \<Rightarrow> dispatcher \<Rightarrow> dispatcher" where
  "probe_and_bind probe e d =
    (case probe of
       None \<Rightarrow> d
     | Some b \<Rightarrow>
         (let d = d\<lparr>probes := probes d + 1\<rparr>
          in if b then d\<lparr>permute_fn := Some e\<rparr> else d))"

definition init_permute_function :: "platform \<Rightarrow> dispatcher \<Rightarrow> dispatcher" where
  "init_permute_function p d =
    (if permute_fn d \<noteq> None then d
     else
       (let d = d\<lparr>permute_fn := Some Reference\<rparr>;
            d = probe_and_bind (supportsAVX2 p) AVX2 d;
            d = probe_and_bind (supportsAVX512 p) AVX512 d
        in d))"

definition call_engine :: "(state \<Rightarrow> state) \<Rightarrow> engine \<Rightarrow> state \<Rightarrow> state" where
  "call_engine reference e state =
    (case e of
       Reference \<Rightarrow> reference state
     | AVX2 \<Rightarrow> KeccakP1600_Permute_24rounds_avx2 state
     | AVX512 \<Rightarrow> KeccakP1600_Permute_24rounds_avx512 state)"

text \<open>
  The stable entry point returns the dispatcher state after the call and the permuted
  buffer; a call through a \<^verbatim>\<open>NULL\<close> pointer would be \<open>None\<close>.
\<close>

definition KeccakP1600_Permute_24rounds ::
  "platform \<Rightarrow> (state \<Rightarrow> state) \<Rightarrow> dispatcher \<Rightarrow> state \<Rightarrow> (dispatcher \<times> state) option" where
  "KeccakP1600_Permute_24rounds p reference d state =
    (let d = (if permute_fn d = None then init_permute_function p d else d)
     in case permute_fn d of
          None \<Rightarrow> None
        | Some e \<Rightarrow> Some (d, call_engine reference e state))"

text \<open>The preference order the dispatcher is meant to realise.\<close>

definition most_capable_engine :: "platform \<Rightarrow> engine" where
  "most_capable_engine p =
    (if supportsAVX512 p = Some True then AVX512
     else if supportsAVX2 p = Some True then AVX2
     else Reference)"

text \<open>The number of probe calls one run of the initialisation makes in this build.\<close>

definition compiled_probes :: "platform \<Rightarrow> nat" where
  "compiled_probes p =
    (case supportsAVX2 p of None \<Rightarrow> 0 | Some b \<Rightarrow> 1) +
    (case supportsAVX512 p of None \<Rightarrow> 0 | Some b \<Rightarrow> 1)"

section \<open>The Keccak-p[1600] steps as the specification words them\<close>

text \<open>
  Lane \<open>(x, y)\<close> is at index \<open>y * 5 + x\<close>.  These definitions follow the specification's
  description of a round, not the vector code; the engines are compared with them.
\<close>

definition lane_index :: "nat \<Rightarrow> nat \<Rightarrow> nat" where
  "lane_index x y = y * 5 + x"

definition theta_C :: "state \<Rightarrow> nat \<Rightarrow> lane" where
  "theta_C s x = s ! x XOR s ! (x + 5) XOR s ! (x + 10) XOR s ! (x + 15) XOR s ! (x + 20)"

definition theta_D :: "state \<Rightarrow> nat \<Rightarrow> lane" where
  "theta_D s x = theta_C s ((x + 4) mod 5) XOR word_rotl 1 (theta_C s ((x + 1) mod 5))"

definition theta_spec :: "state \<Rightarrow> state" where
  "theta_spec s = map (\<lambda>i. s ! i XOR theta_D s (i mod 5)) [0..<25]"

definition rho_spec :: "state \<Rightarrow> state" where
  "rho_spec s = map (\<lambda>i. word_rotl (nat (rhotates ! i)) (s ! i)) [0..<25]"

text \<open>Pi moves source lane \<open>(x, y)\<close> to destination lane \<open>(y, (2x + 3y) mod 5)\<close>.\<close>

definition pi_dest :: "nat \<Rightarrow> nat" where
  "pi_dest i = (let x = i mod 5; y = i div 5 in lane_index y ((2 * x + 3 * y) mod 5))"

definition pi_spec :: "state \<Rightarrow> state" where
  "pi_spec s = foldl (\<lambda>t i. t[pi_dest i := s ! i]) s [0..<25]"

definition chi_spec :: "state \<Rightarrow> state" where
  "chi_spec s =
    map (\<lambda>i. let x = i mod 5; y = i div 5
              in s ! lane_index x y XOR
                 (NOT (s ! lane_index ((x + 1) mod 5) y) AND s ! lane_index ((x + 2) mod 5) y))
      [0..<25]"

text \<open>
  Modelled from the spec: the reference step engine (KeccakP-1600-reference.c is not among
  the sources).  One round is theta, rho, pi, chi, iota in this order; \<open>nr\<close> rounds use the
  last \<open>nr\<close> round constants of the schedule.
\<close>

definition keccak_round_spec :: "state \<Rightarrow> lane \<Rightarrow> state" where
  "keccak_round_spec s rc = iota_section (chi_spec (pi_spec (rho_spec (theta_spec s)))) rc"

definition keccak_p1600_spec :: "nat \<Rightarrow> state \<Rightarrow> state" where
  "keccak_p1600_spec nr s = foldl keccak_round_spec s (drop (24 - nr) KeccakF1600RoundConstants)"

text \<open>
  The published Keccak-f[1600] state after permuting the all-zero state (the first
  permutation of the Keccak team's intermediate-values test vectors), lane 0 first.
\<close>

definition keccak_f1600_zero_kat :: state where
  "keccak_f1600_zero_kat =
    [0xF1258F7940E1DDE7, 0x84D5CCF933C0478A, 0xD598261EA65AA9EE, 0xBD1547306F80494D,
     0x8B284E056253D057, 0xFF97A42D7F8E6FD4, 0x90FEE5A0A44647C4, 0x8C5BDA0CD6192E76,
     0xAD30A6F71B19059C, 0x30935AB7D08FFC64, 0xEB5AA93F2317D635, 0xA9A6E6260D712103,
     0x81A57C16DBCF555F, 0x43B831CD0347C826, 0x01F22F1A11A5569F, 0x05E5635A21D9AE61,
     0x64BEFEF28CC970F2, 0x613670957BC46611, 0xB87C5A554FD00ECB, 0x8C3EE88A1CCF32C8,
     0x940C7922AE3A2614, 0x1841F924A2C509E4, 0x16F53526E70465C2, 0x75F644E97F30A13B,
     0xEAF1FF7B5CECA249]"

definition zero_state :: state where
  "zero_state = replicate 25 0"

section \<open>Concrete states used below\<close>

definition lane0_state :: state where
  "lane0_state = [1, 0, 0, 0, 0, 0, 0, 0, 0, 0, 0, 0, 0, 0, 0, 0, 0, 0, 0, 0, 0, 0, 0, 0, 0]"

definition lane1_state :: state where
  "lane1_state = [0, 1, 0, 0, 0, 0, 0, 0, 0, 0, 0, 0, 0, 0, 0, 0, 0, 0, 0, 0, 0, 0, 0, 0, 0]"

definition ones_state :: state where
  "ones_state = replicate 25 0xFFFFFFFFFFFFFFFF"

text \<open>Two states that differ in lanes 0 and 5 only.\<close>

definition collide_a :: state where
  "collide_a =
    [0, 0, 0, 0, 0, 0xFFFFFFFFFFFFFFFF, 0, 0, 0, 0, 0xFFFFFFFFFFFFFFFF, 0, 0, 0, 0,
     0, 0, 0, 0, 0, 0, 0, 0, 0, 0]"

definition collide_b :: state where
  "collide_b =
    [0xFFFFFFFFFFFFFFFF, 0, 0, 0, 0, 0, 0, 0, 0, 0, 0xFFFFFFFFFFFFFFFF, 0, 0, 0, 0,
     0, 0, 0, 0, 0, 0, 0, 0, 0, 0]"

section \<open>Inverse steps of the AVX2 round\<close>

text \<open>
  Not part of the source: the inverse of chi on a row, the inverse of the fused rho+pi
  sequence of the engines (rotate back, transpose back) and the inverse of one AVX2 round.
  The theta section of the AVX2 engine is its own inverse.  They serve the injectivity
  proof only.
\<close>

definition chi_inverse :: "state \<Rightarrow> state" where
  "chi_inverse s =
    map (\<lambda>i. let x = i mod 5; y = i div 5
              in s ! lane_index x y XOR
                 (NOT (s ! lane_index ((x + 1) mod 5) y) AND
                  (s ! lane_index ((x + 2) mod 5) y XOR
                   (NOT (s ! lane_index ((x + 3) mod 5) y) AND
                    s ! lane_index ((x + 4) mod 5) y))))
      [0..<25]"

definition rho_pi_inverse_avx2 :: "state \<Rightarrow> state" where
  "rho_pi_inverse_avx2 s =
    map (\<lambda>i. word_rotr (nat (rhotates ! i)) (s ! lane_index (i div 5) (i mod 5))) [0..<25]"

definition Round_avx2_inverse :: "state \<Rightarrow> lane \<Rightarrow> state" where
  "Round_avx2_inverse s rc =
    snd (theta_section_avx2 (rho_pi_inverse_avx2 (chi_inverse (iota_section s rc))))"

section \<open>Rotation as shifts, as a library rotation and on numerals\<close>

lemma and_63_id:
  fixes n :: int
  assumes "0 \<le> n" "n \<le> 63"
  shows "n AND 63 = n"
proof -
  have "take_bit 6 n = n"
    using assms by (simp add: take_bit_int_eq_self_iff)
  moreover have "(63::int) = mask 6"
    by (simp add: mask_eq_exp_minus_1)
  ultimately show ?thesis
    by (simp only: take_bit_eq_mask)
qed

lemma rotl64_shift_pair:
  "0 \<le> n \<Longrightarrow> n \<le> 63 \<Longrightarrow> rotl64 x n = push_bit (nat n) x OR drop_bit (64 - nat n) x"
  by (auto simp: rotl64_def rotl64_generic_def Let_def and_63_id nat_diff_distrib)

lemma word_rotl_shift_pair:
  fixes x :: "64 word"
  assumes "k < 64"
  shows "word_rotl k x = push_bit k x OR drop_bit (64 - k) x"
proof (rule bit_word_eqI)
  fix i
  assume "i < LENGTH(64)"
  then have i: "i < 64"
    by simp
  show "bit (word_rotl k x) i \<longleftrightarrow> bit (push_bit k x OR drop_bit (64 - k) x) i"
  proof (cases "k \<le> i")
    case True
    then have "(i + (64 - k)) mod 64 = i - k"
      using i assms by (simp add: mod_if)
    moreover have "\<not> bit x (64 - k + i)"
      using True assms bit_imp_le_length [of x "64 - k + i"] by auto
    ultimately show ?thesis
      using True i assms by (simp add: bit_simps)
  next
    case False
    then have "(i + (64 - k)) mod 64 = 64 - k + i"
      using i assms by simp
    then show ?thesis
      using False i assms by (simp add: bit_simps)
  qed
qed

lemma rotl64_word_rotl:
  "0 \<le> n \<Longrightarrow> n \<le> 63 \<Longrightarrow> rotl64 x n = word_rotl (nat n) x"
  by (simp add: rotl64_shift_pair word_rotl_shift_pair)

lemma rotl64_unat:
  assumes "0 \<le> n" "n \<le> 63"
  shows "rotl64 x n =
    word_of_nat (take_bit 64 (push_bit (nat n) (unat x)) OR drop_bit (64 - nat n) (unat x))"
proof -
  have "(word_of_nat (take_bit 64 N) :: 64 word) = word_of_nat N" for N
    by (simp add: word_of_nat_eq_iff)
  then have "(word_of_nat (take_bit 64 (push_bit (nat n) (unat x))) :: 64 word) = push_bit (nat n) x"
    by (simp add: of_nat_push_bit)
  moreover have "(word_of_nat (drop_bit (64 - nat n) (unat x)) :: 64 word) = drop_bit (64 - nat n) x"
    by (simp flip: unat_drop_bit_eq)
  ultimately show ?thesis
    using assms by (simp only: rotl64_shift_pair of_nat_or_eq)
qed

lemma rotate_nat_arith:
  fixes u :: nat
  assumes "k \<le> 64" "u < 2 ^ 64"
  shows "take_bit 64 (push_bit k u) OR drop_bit (64 - k) u =
    (u - drop_bit (64 - k) u * 2 ^ (64 - k)) * 2 ^ k + drop_bit (64 - k) u"
proof -
  define hi where "hi = drop_bit (64 - k) u"
  define lo where "lo = take_bit (64 - k) u"
  have lo: "u - hi * 2 ^ (64 - k) = lo"
    by (simp add: hi_def lo_def drop_bit_eq_div take_bit_eq_mod minus_div_mult_eq_mod)
  have "hi < 2 ^ k"
  proof -
    have "u < 2 ^ (64 - k) * 2 ^ k"
      using assms by (simp flip: power_add)
    then show ?thesis
      by (simp add: hi_def drop_bit_eq_div less_mult_imp_div_less mult.commute)
  qed
  then have hi: "take_bit k hi = hi"
    by (simp add: take_bit_nat_eq_self)
  have "take_bit 64 (push_bit k u) = push_bit k lo"
    by (simp add: take_bit_push_bit lo_def)
  moreover have "push_bit k lo OR hi = push_bit k lo + hi"
  proof -
    have "\<not> bit hi m" if "k \<le> m" for m
      using hi that by (metis bit_take_bit_iff not_le)
    then have "push_bit k lo AND hi = 0"
      by (auto simp: bit_eq_iff bit_simps)
    then show ?thesis
      by (simp add: disjunctive_add_eq_or)
  qed
  ultimately show ?thesis
    by (simp add: lo push_bit_eq_mult flip: hi_def)
qed

lemma rotl64_numeral:
  assumes "0 \<le> k" "k \<le> 63" "numeral n < (18446744073709551616::nat)"
  shows "rotl64 (numeral n) k =
    (let hi = drop_bit (64 - nat k) (numeral n :: nat)
     in word_of_nat ((numeral n - hi * 2 ^ (64 - nat k)) * 2 ^ nat k + hi))"
proof -
  have p: "(2::nat) ^ 64 = 18446744073709551616"
    by simp
  have lt: "numeral n < (2::nat) ^ 64"
    using assms(3) by (simp only: p)
  have len: "LENGTH(64) = 64"
    by simp
  have u: "unat (numeral n :: 64 word) = numeral n"
    by (simp only: unat_numeral len mod_less [OF lt])
  have "nat k \<le> 64"
    using assms(2) by simp
  then show ?thesis
    using assms(1,2) lt by (simp only: rotl64_unat u rotate_nat_arith Let_def)
qed

lemma rotl64_zero: "0 \<le> k \<Longrightarrow> k \<le> 63 \<Longrightarrow> rotl64 0 k = 0"
  by (simp add: rotl64_word_rotl)

lemma rotl64_one: "0 \<le> k \<Longrightarrow> k \<le> 63 \<Longrightarrow> rotl64 1 k = 2 ^ nat k"
  by (simp add: rotl64_shift_pair drop_bit_Suc flip: drop_bit_eq_div)

lemma word_rotl_0_lane: "word_rotl 0 (x :: 64 word) = x"
  using word_rotl_shift_pair [of 0 x] by simp

section \<open>The rotation dispatch\<close>

text \<open>
  Claim C9.  For every 64-bit value \<open>x\<close> and every rotation amount \<open>n\<close> with
  \<open>0 \<le> n \<le> 63\<close>, \<open>rotl64\<close> returns the rotate-left of \<open>x\<close> by \<open>n\<close> bits; on that range the
  switch and the generic fallback formula give the same word, \<open>rotl64 x 0 = x\<close>, and no
  shift count of the call reaches 64.
\<close>

theorem rotl64_is_rotate_left:
  "0 \<le> n \<Longrightarrow> n \<le> 63 \<Longrightarrow>
    rotl64 x n = word_rotl (nat n) x \<and>
    rotl64 x n = rotl64_generic x n \<and>
    rotl64 x 0 = x \<and>
    rotl64_shift_defined n"
proof -
  assume n: "0 \<le> n" "n \<le> 63"
  have rot: "rotl64 x n = word_rotl (nat n) x"
    using n by (rule rotl64_word_rotl)
  have "rotl64_generic x n = push_bit (nat n) x OR drop_bit (64 - nat n) x"
    using n by (simp add: rotl64_generic_def Let_def and_63_id nat_diff_distrib)
  then have gen: "rotl64 x n = rotl64_generic x n"
    using n by (simp only: rotl64_shift_pair)
  have zero: "rotl64 x 0 = x"
    by (simp add: rotl64_def)
  have "rotl64_shift_defined n"
  proof (cases "n = 0")
    case True
    then show ?thesis
      by (simp add: rotl64_shift_defined_def rotl64_switch_cases_def)
  next
    case False
    then show ?thesis
      using n by (simp add: rotl64_shift_defined_def and_63_id)
  qed
  with rot gen zero show ?thesis
    by (intro conjI)
qed

theorem rotl64_is_rotate_left_witness:
  "(0::int) \<le> 1 \<and> (1::int) \<le> 63 \<and>
    word_rotl (nat 1) (0x8000000000000001 :: lane) = 3 \<and>
    rotl64_generic 0x8000000000000001 1 = 3"
proof -
  have h: "(0::int) \<le> 1" "(1::int) \<le> 63"
    by simp_all
  have e: "rotl64 0x8000000000000001 1 = 3"
    by (simp add: rotl64_def)
  from rotl64_is_rotate_left [OF h, of "0x8000000000000001"] e
  have "word_rotl (nat 1) (0x8000000000000001 :: lane) = 3"
    and "rotl64_generic 0x8000000000000001 1 = 3"
    by metis+
  with h show ?thesis
    by (intro conjI)
qed

section \<open>What each section of a round computes, lane by lane\<close>

text \<open>
  The sections of the two round functions and the steps of the specification, applied to a
  state whose 25 lanes are named.  They are proved once and drive every evaluation below.
\<close>

lemmas vec256_defs =
  mm256_set_epi64x_def mm256_set1_epi64x_def mm256_xor_si256_def mm256_permute4x64_epi64_def
  mm256_extract_epi64_def mm256_loadu_si256_def mm256_storeu_si256_def memcpy_lanes_def

lemmas vec512_defs =
  mm512_set_epi64_def mm512_set1_epi64_def mm512_xor_si512_def mm512_and_si512_def
  mm512_extracti64x4_epi64_def mm256_extracti128_si256_def mm_xor_si128_def mm_extract_epi64_def
  mm512_permutexvar_epi64_def mm512_mask_xor_epi64_def mm512_mask_storeu_epi64_def
  mask_store_lane_def mm512_loadu_si512_def mm512_storeu_si512_def mm256_xor_si256_def
  memcpy_lanes_def

lemma theta_step_avx2_lanes:
  "theta_step_avx2
    [a0, a1, a2, a3, a4, a5, a6, a7, a8, a9, a10, a11, a12, a13, a14, a15, a16, a17, a18, a19, a20,
     a21, a22, a23, a24] =
    (let c =
          [a5 XOR a10 XOR a15 XOR a20, a6 XOR a11 XOR a16 XOR a21, a7 XOR a12 XOR a17 XOR a22,
           a8 XOR a13 XOR a18 XOR a23, a9 XOR a14 XOR a19 XOR a24]
     in (c, D_CALC_all c))"
  unfolding theta_step_avx2_def mm256_horizontal_xor_epi64_def Let_def
  by (simp add: vec256_defs ac_simps)

lemma theta_section_avx2_lanes:
  "theta_section_avx2
    [a0, a1, a2, a3, a4, a5, a6, a7, a8, a9, a10, a11, a12, a13, a14, a15, a16, a17, a18, a19, a20,
     a21, a22, a23, a24] =
    (let d = snd (theta_step_avx2
          [a0, a1, a2, a3, a4, a5, a6, a7, a8, a9, a10, a11, a12, a13, a14, a15, a16, a17, a18,
           a19, a20, a21, a22, a23, a24])
     in (
        [a0, a1, a2, a3, a4, a5, a6, a7, a8, a9, a10, a11, a12, a13, a14, a15, a16 XOR d ! 1,
         a17 XOR d ! 2, a18 XOR d ! 3, a19 XOR d ! 4, a20 XOR d ! 0, a21 XOR d ! 1, a22 XOR d ! 2,
         a23 XOR d ! 3, a24 XOR d ! 4],
        [a0 XOR d ! 0, a1 XOR d ! 1, a2 XOR d ! 2, a3 XOR d ! 3, a4 XOR d ! 4, a5 XOR d ! 0,
         a6 XOR d ! 1, a7 XOR d ! 2, a8 XOR d ! 3, a9 XOR d ! 4, a10 XOR d ! 0, a11 XOR d ! 1,
         a12 XOR d ! 2, a13 XOR d ! 3, a14 XOR d ! 4, a15 XOR d ! 0, a16 XOR d ! 1, a17 XOR d ! 2,
         a18 XOR d ! 3, a19 XOR d ! 4, a20 XOR d ! 0, a21 XOR d ! 1, a22 XOR d ! 2, a23 XOR d ! 3,
         a24 XOR d ! 4]))"
  unfolding theta_section_avx2_def Let_def
  by (simp add: vec256_defs THETA_TAIL_def theta_tail_pairs_def)

lemma rho_pi_section_avx2_lanes:
  "rho_pi_section_avx2
    [s0, s1, s2, s3, s4, s5, s6, s7, s8, s9, s10, s11, s12, s13, s14, s15, s16, s17, s18, s19, s20,
     s21, s22, s23, s24]
    [t0, t1, t2, t3, t4, t5, t6, t7, t8, t9, t10, t11, t12, t13, t14, t15, t16, t17, t18, t19, t20,
     t21, t22, t23, t24] =
    [t0, rotl64 t5 36, rotl64 t10 3, rotl64 t15 41, rotl64 t20 18, rotl64 t1 1, rotl64 t6 44,
     rotl64 t11 10, rotl64 t16 45, rotl64 t21 2, rotl64 t2 62, rotl64 t7 6, rotl64 t12 43,
     rotl64 t17 15, rotl64 t22 61, rotl64 t3 28, rotl64 t8 55, rotl64 t13 25, rotl64 t18 21,
     rotl64 t23 56, rotl64 t4 27, rotl64 t9 20, rotl64 t14 39, rotl64 t19 8, rotl64 t24 14]"
  by (simp add: rho_pi_section_avx2_def rho_pi_steps_avx2_def RHO_PI_STEP_def)

lemma chi_section_avx2_lanes:
  "chi_section_avx2
    [a0, a1, a2, a3, a4, a5, a6, a7, a8, a9, a10, a11, a12, a13, a14, a15, a16, a17, a18, a19, a20,
     a21, a22, a23, a24] =
    [a0 XOR (NOT a1 AND a2), a1 XOR (NOT a2 AND a3), a2 XOR (NOT a3 AND a4),
     a3 XOR (NOT a4 AND a0), a4 XOR (NOT a0 AND a1), a5 XOR (NOT a6 AND a7),
     a6 XOR (NOT a7 AND a8), a7 XOR (NOT a8 AND a9), a8 XOR (NOT a9 AND a5),
     a9 XOR (NOT a5 AND a6), a10 XOR (NOT a11 AND a12), a11 XOR (NOT a12 AND a13),
     a12 XOR (NOT a13 AND a14), a13 XOR (NOT a14 AND a10), a14 XOR (NOT a10 AND a11),
     a15 XOR (NOT a16 AND a17), a16 XOR (NOT a17 AND a18), a17 XOR (NOT a18 AND a19),
     a18 XOR (NOT a19 AND a15), a19 XOR (NOT a15 AND a16), a20 XOR (NOT a21 AND a22),
     a21 XOR (NOT a22 AND a23), a22 XOR (NOT a23 AND a24), a23 XOR (NOT a24 AND a20),
     a24 XOR (NOT a20 AND a21)]"
  unfolding chi_section_avx2_def chi_process_row_def Let_def
  by simp

lemma Round_avx2_staged:
  "KeccakP1600_Round_avx2 s rc =
    (let r = theta_section_avx2 s
     in iota_section (chi_section_avx2 (rho_pi_section_avx2 (fst r) (snd r))) rc)"
  unfolding KeccakP1600_Round_avx2_def Let_def by (rule refl)

lemma theta_step_avx512_lanes:
  "theta_step_avx512
    [a0, a1, a2, a3, a4, a5, a6, a7, a8, a9, a10, a11, a12, a13, a14, a15, a16, a17, a18, a19, a20,
     a21, a22, a23, a24] =
    (let c =
          [a0 XOR a5 XOR a10 XOR a15 XOR a20, a1 XOR a6 XOR a11 XOR a16 XOR a21,
           a2 XOR a7 XOR a12 XOR a17 XOR a22, a3 XOR a8 XOR a13 XOR a18 XOR a23,
           a4 XOR a9 XOR a14 XOR a19 XOR a24]
     in (c, D_CALC_all c))"
  unfolding theta_step_avx512_def mm512_horizontal_xor_epi64_def Let_def
  by (simp add: vec512_defs ac_simps)

lemma theta_section_avx512_lanes:
  "theta_section_avx512
    [a0, a1, a2, a3, a4, a5, a6, a7, a8, a9, a10, a11, a12, a13, a14, a15, a16, a17, a18, a19, a20,
     a21, a22, a23, a24] =
    (let d = snd (theta_step_avx512
          [a0, a1, a2, a3, a4, a5, a6, a7, a8, a9, a10, a11, a12, a13, a14, a15, a16, a17, a18,
           a19, a20, a21, a22, a23, a24])
     in (
        [a0, a1, a2, a3, a4, a5, a6, a7, a8, a9, a10, a11, a12, a13, a14, a15, a16 XOR d ! 1,
         a17 XOR d ! 2, a18 XOR d ! 3, a19 XOR d ! 4, a20 XOR d ! 0, a21 XOR d ! 1, a22 XOR d ! 2,
         a23 XOR d ! 3, a24 XOR d ! 4],
        [a0 XOR d ! 1, a1 XOR d ! 2, a2 XOR d ! 3, a3 XOR d ! 4, a4 XOR d ! 0, a5 XOR d ! 1,
         a6 XOR d ! 2, a7 XOR d ! 3, a8 XOR d ! 0, a9 XOR d ! 1, a10 XOR d ! 2, a11 XOR d ! 3,
         a12 XOR d ! 4, a13 XOR d ! 0, a14 XOR d ! 1, a15 XOR d ! 2, a16 XOR d ! 1, a17 XOR d ! 2,
         a18 XOR d ! 3, a19 XOR d ! 4, a20 XOR d ! 0, a21 XOR d ! 1, a22 XOR d ! 2, a23 XOR d ! 3,
         a24 XOR d ! 4]))"
  unfolding theta_section_avx512_def Let_def
  by (simp add: vec512_defs THETA_TAIL_def theta_tail_pairs_def)

lemma rho_pi_section_avx512_lanes:
  "rho_pi_section_avx512
    [s0, s1, s2, s3, s4, s5, s6, s7, s8, s9, s10, s11, s12, s13, s14, s15, s16, s17, s18, s19, s20,
     s21, s22, s23, s24]
    [t0, t1, t2, t3, t4, t5, t6, t7, t8, t9, t10, t11, t12, t13, t14, t15, t16, t17, t18, t19, t20,
     t21, t22, t23, t24] =
    [t0, rotl64 t5 36, rotl64 t10 3, rotl64 t15 41, rotl64 t20 18, rotl64 t1 1, rotl64 t6 44,
     rotl64 t11 10, rotl64 t16 45, rotl64 t21 2, rotl64 t2 62, rotl64 t7 6, rotl64 t12 43,
     rotl64 t17 15, rotl64 t22 61, rotl64 t3 28, rotl64 t8 55, rotl64 t13 25, rotl64 t18 21,
     rotl64 t23 56, rotl64 t4 27, rotl64 t9 20, rotl64 t14 39, rotl64 t19 8, rotl64 t24 14]"
  by (simp add: rho_pi_section_avx512_def rho_pi_steps_avx512_def RHO_PI_STEP_def)

lemma chi_section_avx512_lanes:
  "chi_section_avx512
    [a0, a1, a2, a3, a4, a5, a6, a7, a8, a9, a10, a11, a12, a13, a14, a15, a16, a17, a18, a19, a20,
     a21, a22, a23, a24] =
    [a0 XOR a1, a1 XOR (NOT a1 AND a2), a2 XOR (NOT a2 AND a3), a3 XOR (NOT a3 AND a4), a4,
     a5 XOR a6, a6 XOR (NOT a6 AND a7), a7 XOR (NOT a7 AND a8), a8 XOR (NOT a8 AND a9), a9,
     a10 XOR a11, a11 XOR (NOT a11 AND a12), a12 XOR (NOT a12 AND a13), a13 XOR (NOT a13 AND a14),
     a14, a15 XOR a16, a16 XOR (NOT a16 AND a17), a17 XOR (NOT a17 AND a18),
     a18 XOR (NOT a18 AND a19), a19, a20 XOR a21, a21 XOR (NOT a21 AND a22),
     a22 XOR (NOT a22 AND a23), a23 XOR (NOT a23 AND a24), a24]"
  unfolding chi_section_avx512_def chi_process_row_avx512_def Let_def
  by (simp add: vec512_defs)

lemma Round_avx512_staged:
  "KeccakP1600_Round_avx512 s rc =
    (let r = theta_section_avx512 s
     in iota_section (chi_section_avx512 (rho_pi_section_avx512 (fst r) (snd r))) rc)"
  unfolding KeccakP1600_Round_avx512_def Let_def by (rule refl)

lemma upt_25:
  "[0..<25] =
    [0, 1, 2, 3, 4, 5, 6, 7, 8, 9, 10, 11, 12, 13, 14, 15, 16, 17, 18, 19, 20, 21, 22, 23, 24]"
  by (simp add: upt_conv_Cons)

lemma theta_spec_lanes:
  "theta_spec
    [a0, a1, a2, a3, a4, a5, a6, a7, a8, a9, a10, a11, a12, a13, a14, a15, a16, a17, a18, a19, a20,
     a21, a22, a23, a24] =
    (let c =
          [a0 XOR a5 XOR a10 XOR a15 XOR a20, a1 XOR a6 XOR a11 XOR a16 XOR a21,
           a2 XOR a7 XOR a12 XOR a17 XOR a22, a3 XOR a8 XOR a13 XOR a18 XOR a23,
           a4 XOR a9 XOR a14 XOR a19 XOR a24];
         d = D_CALC_all c
     in
      [a0 XOR d ! 0, a1 XOR d ! 1, a2 XOR d ! 2, a3 XOR d ! 3, a4 XOR d ! 4, a5 XOR d ! 0,
       a6 XOR d ! 1, a7 XOR d ! 2, a8 XOR d ! 3, a9 XOR d ! 4, a10 XOR d ! 0, a11 XOR d ! 1,
       a12 XOR d ! 2, a13 XOR d ! 3, a14 XOR d ! 4, a15 XOR d ! 0, a16 XOR d ! 1, a17 XOR d ! 2,
       a18 XOR d ! 3, a19 XOR d ! 4, a20 XOR d ! 0, a21 XOR d ! 1, a22 XOR d ! 2, a23 XOR d ! 3,
       a24 XOR d ! 4])"
  unfolding Let_def
  by (simp add: theta_spec_def theta_D_def theta_C_def D_CALC_all_def rotl64_word_rotl upt_25)

lemma rho_spec_lanes:
  "rho_spec
    [a0, a1, a2, a3, a4, a5, a6, a7, a8, a9, a10, a11, a12, a13, a14, a15, a16, a17, a18, a19, a20,
     a21, a22, a23, a24] =
    [a0, rotl64 a1 1, rotl64 a2 62, rotl64 a3 28, rotl64 a4 27, rotl64 a5 36, rotl64 a6 44,
     rotl64 a7 6, rotl64 a8 55, rotl64 a9 20, rotl64 a10 3, rotl64 a11 10, rotl64 a12 43,
     rotl64 a13 25, rotl64 a14 39, rotl64 a15 41, rotl64 a16 45, rotl64 a17 15, rotl64 a18 21,
     rotl64 a19 8, rotl64 a20 18, rotl64 a21 2, rotl64 a22 61, rotl64 a23 56, rotl64 a24 14]"
  by (simp add: rho_spec_def rhotates_def rotl64_word_rotl word_rotl_0_lane upt_25)

lemma pi_spec_lanes:
  "pi_spec
    [a0, a1, a2, a3, a4, a5, a6, a7, a8, a9, a10, a11, a12, a13, a14, a15, a16, a17, a18, a19, a20,
     a21, a22, a23, a24] =
    [a0, a6, a12, a18, a24, a3, a9, a10, a16, a22, a1, a7, a13, a19, a20, a4, a5, a11, a17, a23,
     a2, a8, a14, a15, a21]"
  by (simp add: pi_spec_def pi_dest_def lane_index_def upt_25 Let_def)

lemma chi_spec_lanes:
  "chi_spec
    [a0, a1, a2, a3, a4, a5, a6, a7, a8, a9, a10, a11, a12, a13, a14, a15, a16, a17, a18, a19, a20,
     a21, a22, a23, a24] =
    [a0 XOR (NOT a1 AND a2), a1 XOR (NOT a2 AND a3), a2 XOR (NOT a3 AND a4),
     a3 XOR (NOT a4 AND a0), a4 XOR (NOT a0 AND a1), a5 XOR (NOT a6 AND a7),
     a6 XOR (NOT a7 AND a8), a7 XOR (NOT a8 AND a9), a8 XOR (NOT a9 AND a5),
     a9 XOR (NOT a5 AND a6), a10 XOR (NOT a11 AND a12), a11 XOR (NOT a12 AND a13),
     a12 XOR (NOT a13 AND a14), a13 XOR (NOT a14 AND a10), a14 XOR (NOT a10 AND a11),
     a15 XOR (NOT a16 AND a17), a16 XOR (NOT a17 AND a18), a17 XOR (NOT a18 AND a19),
     a18 XOR (NOT a19 AND a15), a19 XOR (NOT a15 AND a16), a20 XOR (NOT a21 AND a22),
     a21 XOR (NOT a22 AND a23), a22 XOR (NOT a23 AND a24), a23 XOR (NOT a24 AND a20),
     a24 XOR (NOT a20 AND a21)]"
  by (simp add: chi_spec_def lane_index_def upt_25 Let_def)

lemma iota_section_Cons: "iota_section (a # as) rc = (a XOR rc) # as"
  by (simp add: iota_section_def)

lemma zero_state_lanes:
  "zero_state = [0, 0, 0, 0, 0, 0, 0, 0, 0, 0, 0, 0, 0, 0, 0, 0, 0, 0, 0, 0, 0, 0, 0, 0, 0]"
  by (simp add: zero_state_def eval_nat_numeral)

lemmas eval_fast = rotl64_numeral rotl64_zero rotl64_one iota_section_Cons D_CALC_all_def Let_def

lemmas eval_avx2 = Round_avx2_staged theta_section_avx2_lanes theta_step_avx2_lanes
  rho_pi_section_avx2_lanes chi_section_avx2_lanes

lemmas eval_avx512 = Round_avx512_staged theta_section_avx512_lanes theta_step_avx512_lanes
  rho_pi_section_avx512_lanes chi_section_avx512_lanes

lemmas eval_spec = keccak_round_spec_def theta_spec_lanes rho_spec_lanes pi_spec_lanes
  chi_spec_lanes

lemmas perm_avx2 = KeccakP1600_Permute_24rounds_avx2_def KeccakP1600_Permute_12rounds_avx2_def
  KECCAK_ROUND_avx2_def KECCAK_ROUND_12_avx2_def KeccakF1600RoundConstants_def

lemmas perm_avx512 = KeccakP1600_Permute_24rounds_avx512_def
  KeccakP1600_Permute_12rounds_avx512_def KECCAK_ROUND_avx512_def KeccakF1600RoundConstants_def

lemma ones_state_lanes:
  "ones_state =
    [0xFFFFFFFFFFFFFFFF, 0xFFFFFFFFFFFFFFFF, 0xFFFFFFFFFFFFFFFF, 0xFFFFFFFFFFFFFFFF,
     0xFFFFFFFFFFFFFFFF, 0xFFFFFFFFFFFFFFFF, 0xFFFFFFFFFFFFFFFF, 0xFFFFFFFFFFFFFFFF,
     0xFFFFFFFFFFFFFFFF, 0xFFFFFFFFFFFFFFFF, 0xFFFFFFFFFFFFFFFF, 0xFFFFFFFFFFFFFFFF,
     0xFFFFFFFFFFFFFFFF, 0xFFFFFFFFFFFFFFFF, 0xFFFFFFFFFFFFFFFF, 0xFFFFFFFFFFFFFFFF,
     0xFFFFFFFFFFFFFFFF, 0xFFFFFFFFFFFFFFFF, 0xFFFFFFFFFFFFFFFF, 0xFFFFFFFFFFFFFFFF,
     0xFFFFFFFFFFFFFFFF, 0xFFFFFFFFFFFFFFFF, 0xFFFFFFFFFFFFFFFF, 0xFFFFFFFFFFFFFFFF,
     0xFFFFFFFFFFFFFFFF]"
  by (simp add: ones_state_def eval_nat_numeral)

lemma state_25_lanes:
  assumes "length s = 25"
  shows "s = [s ! 0, s ! 1, s ! 2, s ! 3, s ! 4, s ! 5, s ! 6, s ! 7, s ! 8, s ! 9, s ! 10,
    s ! 11, s ! 12, s ! 13, s ! 14, s ! 15, s ! 16, s ! 17, s ! 18, s ! 19, s ! 20, s ! 21,
    s ! 22, s ! 23, s ! 24]"
proof -
  have "map (nth s) [0..<25] = s"
    using map_nth [of s] assms by simp
  then show ?thesis
    by (simp add: upt_25)
qed

lemma chi_section_avx2_is_chi_spec:
  assumes "length s = 25"
  shows "chi_section_avx2 s = chi_spec s"
proof -
  define l where "l = [s ! 0, s ! 1, s ! 2, s ! 3, s ! 4, s ! 5, s ! 6, s ! 7, s ! 8, s ! 9,
    s ! 10, s ! 11, s ! 12, s ! 13, s ! 14, s ! 15, s ! 16, s ! 17, s ! 18, s ! 19, s ! 20,
    s ! 21, s ! 22, s ! 23, s ! 24]"
  have sl: "s = l"
    unfolding l_def by (rule state_25_lanes [OF assms])
  have "chi_section_avx2 l = chi_spec l"
    unfolding l_def by (simp only: chi_section_avx2_lanes chi_spec_lanes)
  then show ?thesis
    by (simp only: sl)
qed

lemma word_rotl_Suc_0_lane: "word_rotl (Suc 0) (x :: lane) = rotl64 x 1"
  by (simp add: rotl64_word_rotl)

section \<open>Theta\<close>

text \<open>
  What holds for every state: the AVX-512 engine computes the column parities and the d
  values of the specification, and the AVX2 engine XORs its d values into the right
  columns.
\<close>

lemma theta_step_avx512_is_theta_C_D:
  assumes "length s = 25"
  shows "theta_step_avx512 s = (map (theta_C s) [0..<5], map (theta_D s) [0..<5])"
proof -
  define l where "l = [s ! 0, s ! 1, s ! 2, s ! 3, s ! 4, s ! 5, s ! 6, s ! 7, s ! 8, s ! 9,
    s ! 10, s ! 11, s ! 12, s ! 13, s ! 14, s ! 15, s ! 16, s ! 17, s ! 18, s ! 19, s ! 20,
    s ! 21, s ! 22, s ! 23, s ! 24]"
  have sl: "s = l"
    unfolding l_def by (rule state_25_lanes [OF assms])
  have "theta_step_avx512 l = (map (theta_C l) [0..<5], map (theta_D l) [0..<5])"
    unfolding l_def
    by (simp add: theta_step_avx512_lanes theta_C_def theta_D_def D_CALC_all_def Let_def
        word_rotl_Suc_0_lane upt_conv_Cons)
  then show ?thesis
    by (simp only: sl)
qed

lemma theta_section_avx2_applies_d_by_column:
  assumes "length s = 25"
  shows "snd (theta_section_avx2 s) =
    map (\<lambda>i. s ! i XOR snd (theta_step_avx2 s) ! (i mod 5)) [0..<25]"
proof -
  define l where "l = [s ! 0, s ! 1, s ! 2, s ! 3, s ! 4, s ! 5, s ! 6, s ! 7, s ! 8, s ! 9,
    s ! 10, s ! 11, s ! 12, s ! 13, s ! 14, s ! 15, s ! 16, s ! 17, s ! 18, s ! 19, s ! 20,
    s ! 21, s ! 22, s ! 23, s ! 24]"
  have sl: "s = l"
    unfolding l_def by (rule state_25_lanes [OF assms])
  have "snd (theta_section_avx2 l) =
    map (\<lambda>i. l ! i XOR snd (theta_step_avx2 l) ! (i mod 5)) [0..<25]"
    unfolding l_def
    by (simp add: theta_section_avx2_lanes Let_def upt_25)
  then show ?thesis
    by (simp only: sl)
qed

text \<open>
  Claim C4.  Theta is to compute the column parities \<open>C[x]\<close> over all five lanes of column
  \<open>x\<close>, \<open>D[x] = C[(x+4) mod 5] XOR rotl(C[(x+1) mod 5], 1)\<close>, and to XOR \<open>D[x]\<close> into every
  lane of column \<open>x\<close>.  On the state whose lane 0 is 1 and whose other lanes are 0 both
  engines leave that: the AVX2 column parities miss the lane of row 0 (the broadcast lane is
  XORed into four vector elements and cancels in the horizontal XOR), so the state is not
  changed at all; the AVX-512 parities and d values are right, and its two d vectors put
  them on the wrong lanes among 0..15.
\<close>

theorem theta_diverges_from_specification:
  "map (theta_C lane0_state) [0..<5] = [1, 0, 0, 0, 0] \<and>
   map (theta_D lane0_state) [0..<5] = [0, 1, 0, 0, 2] \<and>
   theta_spec lane0_state =
     [1, 1, 0, 0, 2, 0, 1, 0, 0, 2, 0, 1, 0, 0, 2, 0, 1, 0, 0, 2, 0, 1, 0, 0, 2] \<and>
   theta_step_avx2 lane0_state = ([0, 0, 0, 0, 0], [0, 0, 0, 0, 0]) \<and>
   snd (theta_section_avx2 lane0_state) = lane0_state \<and>
   theta_step_avx512 lane0_state = ([1, 0, 0, 0, 0], [0, 1, 0, 0, 2]) \<and>
   snd (theta_section_avx512 lane0_state) =
     [0, 0, 0, 2, 0, 1, 0, 0, 0, 1, 0, 0, 2, 0, 1, 0, 1, 0, 0, 2, 0, 1, 0, 0, 2] \<and>
   snd (theta_section_avx2 lane0_state) \<noteq> theta_spec lane0_state \<and>
   snd (theta_section_avx512 lane0_state) \<noteq> theta_spec lane0_state"
  unfolding lane0_state_def
  by (simp add: theta_step_avx2_lanes theta_section_avx2_lanes theta_step_avx512_lanes
      theta_section_avx512_lanes theta_spec_lanes theta_C_def theta_D_def eval_fast
      word_rotl_Suc_0_lane upt_conv_Cons)

section \<open>Chi\<close>

text \<open>
  Claim C5.  Chi is to replace lane \<open>(x, y)\<close> by
  \<open>lane(x, y) XOR (NOT lane(x+1, y) AND lane(x+2, y))\<close>, from the values of the row before the
  step.  The scalar row function of the AVX2 engine does so (\<open>chi_section_avx2_is_chi_spec\<close>
  above).  The AVX-512 row function does not: on the state of all-ones lanes, which chi
  leaves unchanged, it clears the first lane of every row.
\<close>

theorem chi_avx512_diverges_from_specification:
  "chi_spec ones_state = ones_state \<and>
   chi_section_avx2 ones_state = ones_state \<and>
   chi_section_avx512 ones_state =
     [0, 0xFFFFFFFFFFFFFFFF, 0xFFFFFFFFFFFFFFFF, 0xFFFFFFFFFFFFFFFF, 0xFFFFFFFFFFFFFFFF,
      0, 0xFFFFFFFFFFFFFFFF, 0xFFFFFFFFFFFFFFFF, 0xFFFFFFFFFFFFFFFF, 0xFFFFFFFFFFFFFFFF,
      0, 0xFFFFFFFFFFFFFFFF, 0xFFFFFFFFFFFFFFFF, 0xFFFFFFFFFFFFFFFF, 0xFFFFFFFFFFFFFFFF,
      0, 0xFFFFFFFFFFFFFFFF, 0xFFFFFFFFFFFFFFFF, 0xFFFFFFFFFFFFFFFF, 0xFFFFFFFFFFFFFFFF,
      0, 0xFFFFFFFFFFFFFFFF, 0xFFFFFFFFFFFFFFFF, 0xFFFFFFFFFFFFFFFF, 0xFFFFFFFFFFFFFFFF] \<and>
   chi_section_avx512 ones_state \<noteq> chi_spec ones_state"
  unfolding ones_state_lanes
  by (simp add: chi_spec_lanes chi_section_avx2_lanes chi_section_avx512_lanes)

section \<open>Rho and pi\<close>

lemma pi_lane_map_is_keccak_pi: "pi_lane_map = map pi_dest [0..<25]"
  by (simp add: pi_lane_map_def pi_dest_def lane_index_def upt_25 Let_def)

lemma rho_pi_steps_same: "rho_pi_steps_avx512 = rho_pi_steps_avx2"
  by (simp add: rho_pi_steps_avx512_def rho_pi_steps_avx2_def)

lemma rho_pi_steps_rotations:
  "map (\<lambda>(idx, src, rot). (src, rot)) rho_pi_steps_avx2 = tl (zip [0..<25] rhotates)"
  by (simp add: rho_pi_steps_avx2_def rhotates_def upt_25)

text \<open>
  What the fused sequence is, for every scratch state: rho followed by the transposition of
  the 5 by 5 matrix, lane \<open>(x, y)\<close> to lane \<open>(y, x)\<close>.
\<close>

lemma fused_rho_pi_transposes:
  assumes "length t = 25"
  shows "rho_pi_section_avx2 zero_state t =
      map (\<lambda>i. rho_spec t ! lane_index (i div 5) (i mod 5)) [0..<25] \<and>
    rho_pi_section_avx512 zero_state t =
      map (\<lambda>i. rho_spec t ! lane_index (i div 5) (i mod 5)) [0..<25]"
proof -
  define l where "l = [t ! 0, t ! 1, t ! 2, t ! 3, t ! 4, t ! 5, t ! 6, t ! 7, t ! 8, t ! 9,
    t ! 10, t ! 11, t ! 12, t ! 13, t ! 14, t ! 15, t ! 16, t ! 17, t ! 18, t ! 19, t ! 20,
    t ! 21, t ! 22, t ! 23, t ! 24]"
  have tl: "t = l"
    unfolding l_def by (rule state_25_lanes [OF assms])
  have "rho_pi_section_avx2 zero_state l =
      map (\<lambda>i. rho_spec l ! lane_index (i div 5) (i mod 5)) [0..<25] \<and>
    rho_pi_section_avx512 zero_state l =
      map (\<lambda>i. rho_spec l ! lane_index (i div 5) (i mod 5)) [0..<25]"
    unfolding l_def zero_state_lanes
    by (simp add: rho_pi_section_avx2_lanes rho_pi_section_avx512_lanes rho_spec_lanes
        lane_index_def upt_25)
  then show ?thesis
    by (simp only: tl)
qed

text \<open>
  Claim C3.  The fused rho+pi sequence is to equal rho followed by the Keccak pi relabelling,
  source lane \<open>(x, y)\<close> to destination lane \<open>(y, (2x + 3y) mod 5)\<close>.  On the scratch state
  whose lane 1 is 1, rho then pi put the rotated lane at index 10; both engines put it at
  index 5.
\<close>

theorem fused_rho_pi_is_not_rho_then_pi:
  "pi_spec (rho_spec lane1_state) = zero_state[10 := 2] \<and>
   rho_pi_section_avx2 zero_state lane1_state = zero_state[5 := 2] \<and>
   rho_pi_section_avx512 zero_state lane1_state = zero_state[5 := 2] \<and>
   rho_pi_section_avx2 zero_state lane1_state \<noteq> pi_spec (rho_spec lane1_state) \<and>
   rho_pi_section_avx512 zero_state lane1_state \<noteq> pi_spec (rho_spec lane1_state)"
  unfolding lane1_state_def zero_state_lanes
  by (simp add: rho_spec_lanes pi_spec_lanes rho_pi_section_avx2_lanes
      rho_pi_section_avx512_lanes eval_fast)

text \<open>
  Claim C10.  The unrolled steps are to store the rotated scratch lane \<open>i\<close> into lane
  \<open>pi_lane_map[i]\<close>.  The table is the Keccak pi (\<open>pi_lane_map_is_keccak_pi\<close>) and the
  rotation amounts of the steps are those of the rho table (\<open>rho_pi_steps_rotations\<close>), but
  the hard-coded destinations are the transposed indices: scratch lane 1 goes to lane 5,
  not to lane \<open>pi_lane_map[1] = 10\<close>.
\<close>

theorem unrolled_destinations_are_not_pi_lane_map:
  "map (\<lambda>(idx, src, rot). idx) rho_pi_steps_avx2 =
     [5, 10, 15, 20, 1, 6, 11, 16, 21, 2, 7, 12, 17, 22, 3, 8, 13, 18, 23, 4, 9, 14, 19, 24] \<and>
   map (\<lambda>(idx, src, rot). idx) rho_pi_steps_avx512 =
     [5, 10, 15, 20, 1, 6, 11, 16, 21, 2, 7, 12, 17, 22, 3, 8, 13, 18, 23, 4, 9, 14, 19, 24] \<and>
   map (\<lambda>(idx, src, rot). pi_lane_map ! src) rho_pi_steps_avx2 =
     [10, 20, 5, 15, 16, 1, 11, 21, 6, 7, 17, 2, 12, 22, 23, 8, 18, 3, 13, 14, 24, 9, 19, 4] \<and>
   pi_lane_map ! 1 = 10 \<and>
   rotl64 (lane1_state ! 1) (rhotates ! 1) = 2 \<and>
   rho_pi_section_avx2 zero_state lane1_state ! (pi_lane_map ! 1) = 0 \<and>
   rho_pi_section_avx512 zero_state lane1_state ! (pi_lane_map ! 1) = 0 \<and>
   rho_pi_section_avx2 zero_state lane1_state ! 5 = 2 \<and>
   rho_pi_section_avx512 zero_state lane1_state ! 5 = 2"
  unfolding lane1_state_def zero_state_lanes
  by (simp add: rho_pi_steps_avx2_def rho_pi_steps_avx512_def pi_lane_map_def rhotates_def
      rho_pi_section_avx2_lanes rho_pi_section_avx512_lanes eval_fast)

section \<open>Round schedule\<close>

text \<open>
  Claim C7.  Each 12-round entry point applies the round function to the round constants
  at indices 12 to 23 of the schedule, in that order, twelve rounds in all; the 24-round
  entry point of the same engine is the first twelve rounds followed by exactly that.
\<close>

theorem permute_12rounds_is_tail_of_24rounds:
  "KeccakP1600_Permute_12rounds_avx2 s =
      foldl KeccakP1600_Round_avx2 s (drop 12 KeccakF1600RoundConstants) \<and>
   KeccakP1600_Permute_12rounds_avx512 s =
      foldl KeccakP1600_Round_avx512 s (drop 12 KeccakF1600RoundConstants) \<and>
   length (drop 12 KeccakF1600RoundConstants) = 12 \<and>
   KeccakP1600_Permute_24rounds_avx2 s =
      KeccakP1600_Permute_12rounds_avx2
        (foldl KeccakP1600_Round_avx2 s (take 12 KeccakF1600RoundConstants)) \<and>
   KeccakP1600_Permute_24rounds_avx512 s =
      KeccakP1600_Permute_12rounds_avx512
        (foldl KeccakP1600_Round_avx512 s (take 12 KeccakF1600RoundConstants))"
  by (simp add: KeccakP1600_Permute_12rounds_avx2_def KeccakP1600_Permute_24rounds_avx2_def
      KeccakP1600_Permute_12rounds_avx512_def KeccakP1600_Permute_24rounds_avx512_def
      KECCAK_ROUND_avx2_def KECCAK_ROUND_12_avx2_def KECCAK_ROUND_avx512_def
      KeccakF1600RoundConstants_def)

section \<open>The dispatcher\<close>

lemma init_permute_function_unresolved:
  "init_permute_function p \<lparr>permute_fn = None, probes = k\<rparr> =
    \<lparr>permute_fn = Some (most_capable_engine p), probes = k + compiled_probes p\<rparr>"
  by (cases "supportsAVX2 p"; cases "supportsAVX512 p")
    (auto simp: init_permute_function_def probe_and_bind_def most_capable_engine_def
      compiled_probes_def Let_def)

lemma init_permute_function_resolved:
  "init_permute_function p \<lparr>permute_fn = Some e, probes = k\<rparr> =
    \<lparr>permute_fn = Some e, probes = k\<rparr>"
  by (simp add: init_permute_function_def)

text \<open>
  Claim C6.  The dispatcher starts unresolved.  A call of the entry point in an unresolved
  state returns (it is never a call through a null pointer), binds the most capable
  supported engine and runs that engine's 24-round function on the buffer: the AVX-512
  function if the AVX-512 probe reports true, else the AVX2 function if the AVX2 probe
  reports true, else the reference function.  A call in a resolved state runs the function
  of the bound engine and leaves the dispatcher as it was, binding and probe count alike,
  and running the initialisation again changes nothing.
\<close>

theorem dispatcher_resolves_once:
  "dispatcher_initial = \<lparr>permute_fn = None, probes = 0\<rparr> \<and>
   KeccakP1600_Permute_24rounds p reference \<lparr>permute_fn = None, probes = k\<rparr> s =
     Some (if supportsAVX512 p = Some True
           then (\<lparr>permute_fn = Some AVX512, probes = k + compiled_probes p\<rparr>,
                 KeccakP1600_Permute_24rounds_avx512 s)
           else if supportsAVX2 p = Some True
           then (\<lparr>permute_fn = Some AVX2, probes = k + compiled_probes p\<rparr>,
                 KeccakP1600_Permute_24rounds_avx2 s)
           else (\<lparr>permute_fn = Some Reference, probes = k + compiled_probes p\<rparr>,
                 reference s)) \<and>
   KeccakP1600_Permute_24rounds p reference \<lparr>permute_fn = Some AVX512, probes = k\<rparr> s =
     Some (\<lparr>permute_fn = Some AVX512, probes = k\<rparr>, KeccakP1600_Permute_24rounds_avx512 s) \<and>
   KeccakP1600_Permute_24rounds p reference \<lparr>permute_fn = Some AVX2, probes = k\<rparr> s =
     Some (\<lparr>permute_fn = Some AVX2, probes = k\<rparr>, KeccakP1600_Permute_24rounds_avx2 s) \<and>
   KeccakP1600_Permute_24rounds p reference \<lparr>permute_fn = Some Reference, probes = k\<rparr> s =
     Some (\<lparr>permute_fn = Some Reference, probes = k\<rparr>, reference s) \<and>
   init_permute_function p \<lparr>permute_fn = Some e, probes = k\<rparr> =
     \<lparr>permute_fn = Some e, probes = k\<rparr>"
  by (simp add: dispatcher_initial_def KeccakP1600_Permute_24rounds_def call_engine_def
      most_capable_engine_def init_permute_function_unresolved init_permute_function_resolved)

section \<open>Injectivity\<close>

text \<open>
  The AVX2 round has an inverse on 25-lane states, so both AVX2 entry points are injective:
  its chi is the chi of the specification, its rho+pi a rotation and a transposition, and its
  theta, with column parities over rows 1 to 4, undoes itself.
\<close>

lemma chi_inverse_lane:
  fixes a0 :: lane
  shows "(a0 XOR (NOT a1 AND a2)) XOR
    (NOT (a1 XOR (NOT a2 AND a3)) AND
     ((a2 XOR (NOT a3 AND a4)) XOR
      (NOT (a3 XOR (NOT a4 AND a0)) AND (a4 XOR (NOT a0 AND a1))))) = a0"
  by (rule bit_eqI) (auto simp: bit_simps)

lemma xor_cancel4:
  fixes p :: lane
  shows "(p XOR e) XOR (q XOR e) XOR (r XOR e) XOR (u XOR e) = p XOR q XOR r XOR u"
  by (rule bit_eqI) (auto simp: bit_simps)

lemma xor_twice:
  fixes p :: lane
  shows "(p XOR e) XOR e = p"
  by (rule bit_eqI) (auto simp: bit_simps)

lemma rotr_rotl64:
  "0 \<le> n \<Longrightarrow> n \<le> 63 \<Longrightarrow> k = nat n \<Longrightarrow> word_rotr k (rotl64 x n) = x"
  by (simp add: rotl64_word_rotl)

lemma word_rotr_0_lane: "word_rotr 0 (x :: lane) = x"
  using word_rot_lr [of 0 x] by (simp only: word_rotl_0_lane)

lemma chi_inverse_chi_lanes:
  "chi_inverse (chi_section_avx2
    [a0, a1, a2, a3, a4, a5, a6, a7, a8, a9, a10, a11, a12, a13, a14, a15, a16, a17, a18, a19, a20,
     a21, a22, a23, a24]) =
    [a0, a1, a2, a3, a4, a5, a6, a7, a8, a9, a10, a11, a12, a13, a14, a15, a16, a17, a18, a19, a20,
     a21, a22, a23, a24]"
  by (simp add: chi_section_avx2_lanes chi_inverse_def lane_index_def upt_25 Let_def
      chi_inverse_lane)

lemma rho_pi_inverse_lanes:
  "rho_pi_inverse_avx2 (rho_pi_section_avx2
    [s0, s1, s2, s3, s4, s5, s6, s7, s8, s9, s10, s11, s12, s13, s14, s15, s16, s17, s18, s19, s20,
     s21, s22, s23, s24]
    [a0, a1, a2, a3, a4, a5, a6, a7, a8, a9, a10, a11, a12, a13, a14, a15, a16, a17, a18, a19, a20,
     a21, a22, a23, a24]) =
    [a0, a1, a2, a3, a4, a5, a6, a7, a8, a9, a10, a11, a12, a13, a14, a15, a16, a17, a18, a19, a20,
     a21, a22, a23, a24]"
  by (simp add: rho_pi_section_avx2_lanes rho_pi_inverse_avx2_def lane_index_def upt_25
      rhotates_def rotr_rotl64 word_rotr_0_lane)

lemma theta_step_avx2_after_theta_lanes:
  "theta_step_avx2
    [a0 XOR e0, a1 XOR e1, a2 XOR e2, a3 XOR e3, a4 XOR e4,
     a5 XOR e0, a6 XOR e1, a7 XOR e2, a8 XOR e3, a9 XOR e4,
     a10 XOR e0, a11 XOR e1, a12 XOR e2, a13 XOR e3, a14 XOR e4,
     a15 XOR e0, a16 XOR e1, a17 XOR e2, a18 XOR e3, a19 XOR e4,
     a20 XOR e0, a21 XOR e1, a22 XOR e2, a23 XOR e3, a24 XOR e4] =
   theta_step_avx2
    [a0, a1, a2, a3, a4, a5, a6, a7, a8, a9, a10, a11, a12, a13, a14, a15, a16, a17, a18, a19, a20,
     a21, a22, a23, a24]"
  by (simp only: theta_step_avx2_lanes xor_cancel4)

lemma theta_avx2_involution_lanes:
  "snd (theta_section_avx2 (snd (theta_section_avx2
    [a0, a1, a2, a3, a4, a5, a6, a7, a8, a9, a10, a11, a12, a13, a14, a15, a16, a17, a18, a19, a20,
     a21, a22, a23, a24]))) =
    [a0, a1, a2, a3, a4, a5, a6, a7, a8, a9, a10, a11, a12, a13, a14, a15, a16, a17, a18, a19, a20,
     a21, a22, a23, a24]"
  by (simp add: theta_section_avx2_lanes Let_def theta_step_avx2_after_theta_lanes xor_twice)

lemma theta_avx2_involution:
  assumes "length s = 25"
  shows "snd (theta_section_avx2 (snd (theta_section_avx2 s))) = s"
proof -
  define l where "l =
    [s ! 0, s ! 1, s ! 2, s ! 3, s ! 4, s ! 5, s ! 6, s ! 7, s ! 8, s ! 9, s ! 10, s ! 11,
     s ! 12, s ! 13, s ! 14, s ! 15, s ! 16, s ! 17, s ! 18, s ! 19, s ! 20, s ! 21, s ! 22,
     s ! 23, s ! 24]"
  have sl: "s = l"
    unfolding l_def by (rule state_25_lanes [OF assms(1)])
  have "snd (theta_section_avx2 (snd (theta_section_avx2 l))) = l"
    unfolding l_def
    by (rule theta_avx2_involution_lanes)
  then show ?thesis
    by (simp only: sl)
qed

lemma theta_section_avx2_length:
  assumes "length s = 25"
  shows "length (fst (theta_section_avx2 s)) = 25 \<and> length (snd (theta_section_avx2 s)) = 25"
proof -
  define l where "l =
    [s ! 0, s ! 1, s ! 2, s ! 3, s ! 4, s ! 5, s ! 6, s ! 7, s ! 8, s ! 9, s ! 10, s ! 11,
     s ! 12, s ! 13, s ! 14, s ! 15, s ! 16, s ! 17, s ! 18, s ! 19, s ! 20, s ! 21, s ! 22,
     s ! 23, s ! 24]"
  have sl: "s = l"
    unfolding l_def by (rule state_25_lanes [OF assms(1)])
  have "length (fst (theta_section_avx2 l)) = 25 \<and> length (snd (theta_section_avx2 l)) = 25"
    unfolding l_def
    by (simp add: theta_section_avx2_lanes Let_def)
  then show ?thesis
    by (simp only: sl)
qed

lemma chi_inverse_chi:
  assumes "length s = 25"
  shows "chi_inverse (chi_section_avx2 s) = s \<and> length (chi_section_avx2 s) = 25"
proof -
  define l where "l =
    [s ! 0, s ! 1, s ! 2, s ! 3, s ! 4, s ! 5, s ! 6, s ! 7, s ! 8, s ! 9, s ! 10, s ! 11,
     s ! 12, s ! 13, s ! 14, s ! 15, s ! 16, s ! 17, s ! 18, s ! 19, s ! 20, s ! 21, s ! 22,
     s ! 23, s ! 24]"
  have sl: "s = l"
    unfolding l_def by (rule state_25_lanes [OF assms(1)])
  have "chi_inverse (chi_section_avx2 l) = l \<and> length (chi_section_avx2 l) = 25"
    unfolding l_def
    by (simp only: chi_inverse_chi_lanes) (simp add: chi_section_avx2_lanes)
  then show ?thesis
    by (simp only: sl)
qed

lemma rho_pi_inverse:
  assumes "length s = 25" "length t = 25"
  shows "rho_pi_inverse_avx2 (rho_pi_section_avx2 s t) = t \<and>
    length (rho_pi_section_avx2 s t) = 25"
proof -
  define l where "l =
    [s ! 0, s ! 1, s ! 2, s ! 3, s ! 4, s ! 5, s ! 6, s ! 7, s ! 8, s ! 9, s ! 10, s ! 11,
     s ! 12, s ! 13, s ! 14, s ! 15, s ! 16, s ! 17, s ! 18, s ! 19, s ! 20, s ! 21, s ! 22,
     s ! 23, s ! 24]"
  define m where "m =
    [t ! 0, t ! 1, t ! 2, t ! 3, t ! 4, t ! 5, t ! 6, t ! 7, t ! 8, t ! 9, t ! 10, t ! 11,
     t ! 12, t ! 13, t ! 14, t ! 15, t ! 16, t ! 17, t ! 18, t ! 19, t ! 20, t ! 21, t ! 22,
     t ! 23, t ! 24]"
  have sl: "s = l"
    unfolding l_def by (rule state_25_lanes [OF assms(1)])
  have tm: "t = m"
    unfolding m_def by (rule state_25_lanes [OF assms(2)])
  have "rho_pi_inverse_avx2 (rho_pi_section_avx2 l m) = m \<and>
    length (rho_pi_section_avx2 l m) = 25"
    unfolding l_def m_def
    by (simp only: rho_pi_inverse_lanes) (simp add: rho_pi_section_avx2_lanes)
  then show ?thesis
    by (simp only: sl tm)
qed

lemma iota_section_involution:
  assumes "length s = 25"
  shows "iota_section (iota_section s rc) rc = s \<and> length (iota_section s rc) = 25"
  using assms by (simp add: iota_section_def xor_twice)

lemma Round_avx2_inverse:
  assumes "length s = 25"
  shows "Round_avx2_inverse (KeccakP1600_Round_avx2 s rc) rc = s \<and>
    length (KeccakP1600_Round_avx2 s rc) = 25"
proof -
  define t where "t = snd (theta_section_avx2 s)"
  define f where "f = fst (theta_section_avx2 s)"
  define u where "u = rho_pi_section_avx2 f t"
  define v where "v = chi_section_avx2 u"
  have lt: "length f = 25" "length t = 25"
    using theta_section_avx2_length [OF assms] by (simp_all add: f_def t_def)
  have u: "rho_pi_inverse_avx2 u = t" "length u = 25"
    using rho_pi_inverse [OF lt] by (simp_all add: u_def)
  have v: "chi_inverse v = u" "length v = 25"
    using chi_inverse_chi [OF u(2)] by (simp_all add: v_def)
  have w: "iota_section (iota_section v rc) rc = v" "length (iota_section v rc) = 25"
    using iota_section_involution [OF v(2)] by simp_all
  have r: "KeccakP1600_Round_avx2 s rc = iota_section v rc"
    by (simp add: KeccakP1600_Round_avx2_def Let_def v_def u_def f_def t_def)
  have "Round_avx2_inverse (iota_section v rc) rc = snd (theta_section_avx2 t)"
    by (simp only: Round_avx2_inverse_def w(1) v(1) u(1))
  also have "\<dots> = s"
    unfolding t_def by (rule theta_avx2_involution [OF assms])
  finally show ?thesis
    using w(2) by (simp only: r)
qed

lemma foldl_round_avx2_injective:
  assumes "length s = 25" "length s' = 25"
    and "foldl KeccakP1600_Round_avx2 s rcs = foldl KeccakP1600_Round_avx2 s' rcs"
  shows "s = s'"
  using assms
proof (induction rcs arbitrary: s s')
  case Nil
  then show ?case
    by simp
next
  case (Cons rc rcs)
  have e: "foldl KeccakP1600_Round_avx2 (KeccakP1600_Round_avx2 s rc) rcs =
      foldl KeccakP1600_Round_avx2 (KeccakP1600_Round_avx2 s' rc) rcs"
    using Cons.prems(3) by (simp only: foldl_Cons)
  note a = Round_avx2_inverse [OF Cons.prems(1), of rc]
  note b = Round_avx2_inverse [OF Cons.prems(2), of rc]
  have "KeccakP1600_Round_avx2 s rc = KeccakP1600_Round_avx2 s' rc"
    by (rule Cons.IH [OF a [THEN conjunct2] b [THEN conjunct2] e])
  then have "Round_avx2_inverse (KeccakP1600_Round_avx2 s rc) rc =
      Round_avx2_inverse (KeccakP1600_Round_avx2 s' rc) rc"
    by (rule arg_cong)
  then show ?case
    by (simp only: a [THEN conjunct1] b [THEN conjunct1])
qed

lemma avx2_permutations_are_injective:
  assumes "length s = 25" "length s' = 25"
  shows "KeccakP1600_Permute_24rounds_avx2 s = KeccakP1600_Permute_24rounds_avx2 s' \<Longrightarrow> s = s'"
    and "KeccakP1600_Permute_12rounds_avx2 s = KeccakP1600_Permute_12rounds_avx2 s' \<Longrightarrow> s = s'"
proof -
  have p24: "KeccakP1600_Permute_24rounds_avx2 x =
      foldl KeccakP1600_Round_avx2 x KeccakF1600RoundConstants" for x
    by (simp add: KeccakP1600_Permute_24rounds_avx2_def KECCAK_ROUND_avx2_def
        KeccakF1600RoundConstants_def)
  have p12: "KeccakP1600_Permute_12rounds_avx2 x =
      foldl KeccakP1600_Round_avx2 x (drop 12 KeccakF1600RoundConstants)" for x
    by (simp add: KeccakP1600_Permute_12rounds_avx2_def KECCAK_ROUND_12_avx2_def
        KeccakF1600RoundConstants_def)
  show "KeccakP1600_Permute_24rounds_avx2 s = KeccakP1600_Permute_24rounds_avx2 s' \<Longrightarrow> s = s'"
    using assms by (simp only: p24) (rule foldl_round_avx2_injective)
  show "KeccakP1600_Permute_12rounds_avx2 s = KeccakP1600_Permute_12rounds_avx2 s' \<Longrightarrow> s = s'"
    using assms by (simp only: p12) (rule foldl_round_avx2_injective)
qed

lemma avx512_round_collides:
  "KeccakP1600_Round_avx512 collide_a rc = KeccakP1600_Round_avx512 collide_b rc"
  unfolding collide_a_def collide_b_def
  by (simp add: eval_avx512 eval_fast)

text \<open>
  Claim C8.  The 24-round permutation of each engine is to be injective on 25-lane states.
  The AVX-512 engine maps two different states to the same output: one round already
  merges them, since its chi sends the rows \<open>(0, m, m, 0, 0)\<close> and \<open>(m, 0, m, 0, 0)\<close> to the
  same row.  The AVX2 engine is injective (\<open>avx2_permutations_are_injective\<close> above).
\<close>

theorem avx512_permutation_is_not_injective:
  "length collide_a = 25 \<and> length collide_b = 25 \<and> collide_a \<noteq> collide_b \<and>
   KeccakP1600_Permute_24rounds_avx512 collide_a = KeccakP1600_Permute_24rounds_avx512 collide_b \<and>
   KeccakP1600_Permute_12rounds_avx512 collide_a = KeccakP1600_Permute_12rounds_avx512 collide_b"
proof -
  have "collide_a \<noteq> collide_b" "length collide_a = 25" "length collide_b = 25"
    by (simp_all add: collide_a_def collide_b_def)
  moreover have "KECCAK_ROUND_avx512 collide_a i = KECCAK_ROUND_avx512 collide_b i" for i
    by (simp only: KECCAK_ROUND_avx512_def avx512_round_collides)
  then have "foldl KECCAK_ROUND_avx512 collide_a (i # is) =
      foldl KECCAK_ROUND_avx512 collide_b (i # is)" for i "is"
    by (simp only: foldl_Cons)
  then have "KeccakP1600_Permute_24rounds_avx512 collide_a =
        KeccakP1600_Permute_24rounds_avx512 collide_b"
      "KeccakP1600_Permute_12rounds_avx512 collide_a =
        KeccakP1600_Permute_12rounds_avx512 collide_b"
    by (simp_all only: KeccakP1600_Permute_24rounds_avx512_def
        KeccakP1600_Permute_12rounds_avx512_def)
  ultimately show ?thesis
    by (intro conjI)
qed

section \<open>The permutations on the all-zero state\<close>

lemma avx2_24rounds_zero_state:
  "KeccakP1600_Permute_24rounds_avx2 zero_state =
    [0x25B155A53A8165CF, 0x668D2F3FEB5133CB, 0x1C94A730B6C4CBA1, 0x236E60AA416A06AA,
     0xA335E33FDE5B470D, 0x19399C721FBBFA62, 0x372AF04AF037E263, 0xC4DC40086EE19ABB,
     0x2345CFA0A6E98249, 0xC12799AF7113940A, 0x8A22B3BDC7A1E187, 0x17D17D1A8E571FEE,
     0x9BF12FA5FA339715, 0x7B679A3F61E895CB, 0x4D4C2774BE30D985, 0x8417F39A9201D16B,
     0x8C1338AD180CBCDA, 0x646D5AC5A5D1CF53, 0x6D5CBE2901E03564, 0xFE0DB602AD3F885C,
     0x5356D94D50A1D7B8, 0xA40D72323A0C1952, 0xEB3652060385D194, 0x3D069A02899A9D45,
     0x8F6AE3C1FF212DBF]"
  unfolding zero_state_lanes by (simp add: perm_avx2 eval_avx2 eval_fast)

lemma avx512_24rounds_zero_state:
  "KeccakP1600_Permute_24rounds_avx512 zero_state =
    [0xAABA66C4C32F0336, 0xF76FABEBEE4F97F7, 0xB3FF3B75EF63FEF7, 0xF7FE7BF7E76FECF5,
     0xF4767AA7A60F4451, 0x457B6FC2824AA37A, 0xF3FEFBFFDF3BBB1F, 0xF73EFBFFF7B62BD5,
     0xFF1DFBFFEFBCF2CE, 0xFF1D53F5499CF08E, 0xBE49A3C17420750A, 0xDD7EF773F1F7F3EB,
     0xDF7FD377F56FF7F6, 0xD77FD9F7FEDFE7F7, 0xD57B88F77ED36783, 0x2BFA7D50B565D937,
     0xD95F5EF7E7AF1FFB, 0xF9FF5EFF56FF97EB, 0xFBEF16DFFF7FC763, 0x03CD1657FF17C262,
     0x3165294170DBD8F0, 0xF7CFFB4FF9F75DBF, 0x5DC6BDEF79BF7FB9, 0x59D6BDB5F4FA7F39,
     0x59D61D94C4600718]"
  unfolding zero_state_lanes by (simp add: perm_avx512 eval_avx512 eval_fast)

lemma avx2_12rounds_zero_state:
  "KeccakP1600_Permute_12rounds_avx2 zero_state =
    [0x5223545D9E4400E7, 0x10E4078CE2A04EBA, 0x56A70C12FAF50881, 0x877415AB7DAAEAA7,
     0xC236AF27694900B5, 0x5F6A02E7FFF9D80F, 0x9888CAF1E2B7B77C, 0x68CEB1163BA199E0,
     0x3B9EDAF9AD57B45C, 0x983B71E84C8D453D, 0x355FB46B846B0605, 0xABEA2DE2B7C863CD,
     0x7FF0AED7B087F153, 0x4A629E492FC84A73, 0xD8B442E9D8126B13, 0x5C521EF0CC9E3E56,
     0xFE4DD2A1D4EEF7AB, 0xFFBA7A7341DE893D, 0x8A85C7D531FF1244, 0x8FD8183ED8CDD163,
     0x83E6C0B6A2B5372C, 0xE28564DD5F3D2F6E, 0xE7D03239E13C89E3, 0xACBF12EB57730C61,
     0x8C9B679C848B3F55]"
  unfolding zero_state_lanes by (simp add: perm_avx2 eval_avx2 eval_fast)

lemma avx512_12rounds_zero_state:
  "KeccakP1600_Permute_12rounds_avx512 zero_state =
    [0xA6C45016D98F4B46, 0x7BEDF5F7DD7DBEFF, 0xF9E5F942FF1D9FBF, 0x97F4F9CFFF3D0FFE,
     0x9694618D932D047C, 0x6624C5BB38D4AEF8, 0xFF7F6FFE37DBB4DD, 0xFFCF6D7FA7C9B49D,
     0xF5FBE76FF63C9FF3, 0x81F9E206743C1FE2, 0x91D422D8F3FC8AD6, 0xFB6FFF4FFDF7BFE9,
     0xEFF7FFEF3DBB3BEA, 0xDDD2FFEF3FCFF7EE, 0x9DD0FA64324FE7CE, 0x1303C7126D2FEC15,
     0xBCBFF3F7FFAFDDFE, 0xFDBE35F3FFEFFDFE, 0xFD373FFEDBEFFDFE, 0xFD372BAE886CBDC6,
     0x425F3122AA4478C9, 0x8575DFB9F6EE5F7D, 0xDDEDF7FDCFFF5EF9, 0xD9FF77FFCFF57ED3,
     0x807F033F8FD57E03]"
  unfolding zero_state_lanes by (simp add: perm_avx512 eval_avx512 eval_fast)

lemma keccak_p1600_spec_zero_state:
  "keccak_p1600_spec 24 zero_state = keccak_f1600_zero_kat"
  unfolding zero_state_lanes keccak_f1600_zero_kat_def
  by (simp add: keccak_p1600_spec_def KeccakF1600RoundConstants_def eval_spec eval_fast)

text \<open>
  Claim C1.  The AVX2 and the AVX-512 engine are to return the same state for the same
  input, for the 24-round and for the 12-round entry points.  On the all-zero state they
  differ, for both round counts.
\<close>

theorem vector_engines_disagree_on_zero_state:
  "KeccakP1600_Permute_24rounds_avx2 zero_state \<noteq>
     KeccakP1600_Permute_24rounds_avx512 zero_state \<and>
   KeccakP1600_Permute_12rounds_avx2 zero_state \<noteq>
     KeccakP1600_Permute_12rounds_avx512 zero_state"
  by (simp add: avx2_24rounds_zero_state avx512_24rounds_zero_state
      avx2_12rounds_zero_state avx512_12rounds_zero_state)

text \<open>
  Claim C2.  Permuting the all-zero state for 24 rounds is to give the published
  Keccak-f[1600] test vector.  The rounds of the specification, with the tables of the
  source, do give it; neither vector engine does.
\<close>

theorem known_answer_test_fails:
  "keccak_p1600_spec 24 zero_state = keccak_f1600_zero_kat \<and>
   KeccakP1600_Permute_24rounds_avx2 zero_state \<noteq> keccak_f1600_zero_kat \<and>
   KeccakP1600_Permute_24rounds_avx512 zero_state \<noteq> keccak_f1600_zero_kat"
  by (simp add: keccak_p1600_spec_zero_state avx2_24rounds_zero_state
      avx512_24rounds_zero_state keccak_f1600_zero_kat_def)

end
